theory Spec2Isabelle
  imports Complex_Main
begin

section \<open>OTA update extension (src/lib/extension/otaUpdate.ts)\<close>

text \<open>
  The extension coordinates firmware checks and updates per device. Its own state is the
  In-Progress Set (\<open>inProgress\<close>), the Last-Checked Map (\<open>lastChecked\<close>) and the
  \<open>update\<close> entry of every device in the state store. Everything it does to the outside
  (log lines, bus messages, published device state, provider calls, lifecycle events, the
  reply sent to a device) is recorded as a list of events in program order. The results
  of the calls it waits for (the OTA provider, the firmware identity read, the clock) are
  inputs of the model. A handler's result is the state it leaves, the events, and the
  error when it throws instead of returning.

  Numbers: versions, timestamps (milliseconds) and the interval (minutes) are integers;
  the progress percentage and the remaining seconds are reals. Strings are lists of
  8-bit characters.
\<close>

subsection \<open>Data\<close>

text \<open>\<open>type UpdateState = 'updating' | 'idle' | 'available'\<close>\<close>

datatype UpdateState = Updating | Idle | Available

text \<open>
  The \<open>update\<close> object, both as it is published (\<open>UpdatePayload.update\<close>) and as the
  state store keeps it (\<open>this.state.get(device).update\<close>). An optional field is
  \<open>None\<close> when the key is absent; a version is \<open>None\<close> when it is \<open>null\<close> or
  \<open>undefined\<close>.
\<close>

record update_rec =
  state :: UpdateState
  installed_version :: "int option"
  latest_version :: "int option"
  progress :: "real option"
  remaining :: "int option"

record UpdatePayload =
  update_available :: "bool option"
  update :: update_rec

text \<open>\<open>zhc.OtaUpdateAvailableResult\<close>\<close>

record OtaUpdateAvailableResult =
  available :: bool
  currentFileVersion :: int
  otaFileVersion :: int

text \<open>The second argument of \<open>getEntityPublishPayload\<close>: a result object or a state string.\<close>

datatype state_arg = Result OtaUpdateAvailableResult | StateString UpdateState

record endpoint =
  ep_ID :: nat
  supportsOutputCluster_genOta :: bool

text \<open>
  A device: \<open>dev_definition\<close> is \<open>None\<close> when \<open>device.definition\<close> is missing and
  \<open>Some b\<close> otherwise, \<open>b\<close> telling whether \<open>definition.ota\<close> is set.
\<close>

record device =
  ieeeAddr :: string
  name :: string
  dev_definition :: "bool option"
  endpoints :: "endpoint list"

text \<open>
  What a \<open>catch (e)\<close> block reads from a thrown value that has properties: the text of
  \<open>e.message\<close>, of \<open>e.stack\<close> (empty when it is falsy) and of \<open>e\<close> itself in a template.
\<close>

record js_error =
  e_message :: string
  e_stack :: string
  e_string :: string

text \<open>
  A promise can also reject with \<open>null\<close> or \<open>undefined\<close>. Such a value has no
  properties: reading \<open>e.message\<close> in the catch block throws a \<open>TypeError\<close>, which
  nothing in the handler catches, so the handler ends there and its promise rejects.
\<close>

datatype nullish = JSNull | JSUndefined

fun nullish_text :: "nullish \<Rightarrow> string" where
  "nullish_text JSNull = ''null''"
| "nullish_text JSUndefined = ''undefined''"

datatype thrown = Nullish nullish | Thrown js_error

datatype failure = TypeError

text \<open>Result of \<open>readSoftwareBuildIDAndDateCode\<close> (\<open>None\<close> is \<open>null\<close>).\<close>

record build_id =
  softwareBuildID :: string
  dateCode :: string

text \<open>
  The parsed request body (\<open>utils.parseJSON(data.message, data.message)\<close>): an object,
  with its \<open>id\<close> property (a string) when it has one, or the body itself as a string.
  Bodies that parse to another kind of JSON value are not covered.
\<close>

datatype message = MObject "string option" | MString string

text \<open>\<open>ID\<close>: \<open>message.id\<close>, or the message itself.\<close>

datatype ident = IdString string | IdObject

fun ident_text :: "ident \<Rightarrow> string" where
  "ident_text (IdString s) = s"
| "ident_text IdObject = ''[object Object]''"

record MQTTMessage =
  topic :: string
  msg_body :: message

record DeviceMessage =
  msg_type :: string
  msg_device :: device
  msg_endpoint :: endpoint
  zclTransactionSequenceNumber :: nat

text \<open>\<open>responseData\<close>: \<open>from\<close>/\<open>to\<close> are absent, \<open>null\<close> or an identity.\<close>

record responseData =
  rd_id :: ident
  updateAvailable :: "bool option"
  rd_from :: "build_id option option"
  rd_to :: "build_id option option"

text \<open>The \<open>meta\<close> object of a \<open>bridge/log\<close> message.\<close>

record log_meta =
  status :: string
  meta_device :: string
  meta_progress :: "real option"
  meta_from_to :: "(build_id option \<times> build_id option) option"

datatype log_message = Text string | Request message

datatype event =
    LogDebug string
  | LogInfo string
  | LogError string
  | BridgeLog log_message log_meta
      \<comment> \<open>\<open>mqtt.publish('bridge/log', stringify({type: 'ota_update', message, meta}))\<close>\<close>
  | BridgeResponse string message responseData "string option"
      \<comment> \<open>\<open>mqtt.publish('bridge/response/device/ota_update/' + type,
            stringify(utils.getResponse(message, responseData, error)))\<close>\<close>
  | PublishEntityState string UpdatePayload
  | IsUpdateAvailable string bool
      \<comment> \<open>the provider's availability query; the flag tells whether image data is passed\<close>
  | UpdateToLatest string
  | ReadBuildID string bool
      \<comment> \<open>the \<open>genBasic\<close> read; the flag is the \<open>'immediate'\<close> send policy\<close>
  | EmitReconfigure string
  | EmitDevicesChanged
  | CommandResponse nat nat nat
      \<comment> \<open>\<open>endpoint.commandResponse('genOta', 'queryNextImageResponse', {status}, undefined, tsn)\<close>:
          endpoint, status, transaction sequence number\<close>

text \<open>Settings and collaborators the extension reads.\<close>

record env =
  base_topic :: string
  legacyApi :: bool
      \<comment> \<open>\<open>this.legacyApi\<close>, read from the settings when the extension is built\<close>
  legacy_api :: bool
      \<comment> \<open>\<open>settings.get().advanced.legacy_api\<close>\<close>
  disable_automatic_update_check :: bool
  update_check_interval :: int
  resolveEntity :: "ident \<Rightarrow> device option"
      \<comment> \<open>\<open>Some d\<close> when \<open>this.zigbee.resolveEntity(ID)\<close> is a \<open>Device\<close>\<close>
  devices :: "device list"
      \<comment> \<open>\<open>this.zigbee.devices(false)\<close>\<close>
  toFixed2 :: "real \<Rightarrow> string"
  showInt :: "int \<Rightarrow> string"
  stringify_build_id :: "build_id option \<Rightarrow> string"

record ota_state =
  inProgress :: "string set"
  lastChecked :: "string \<rightharpoonup> int"
  store :: "string \<rightharpoonup> update_rec"

subsection \<open>State store\<close>

text \<open>
  Modelled from the spec: \<open>publishEntityState\<close> is inherited from the extension base
  class, which is not among the sources. The spec has the payload "merged into that
  device's public state" and the ledger "atomically merges fields into the record": the
  keys of the payload's \<open>update\<close> object replace those of the stored one, keys the payload
  lacks stay.
\<close>

definition merge_update :: "update_rec option \<Rightarrow> update_rec \<Rightarrow> update_rec" where
  "merge_update old p =
     (case old of
        None \<Rightarrow> p
      | Some u \<Rightarrow> p\<lparr>progress := (case progress p of None \<Rightarrow> progress u | Some x \<Rightarrow> Some x),
                    remaining := (case remaining p of None \<Rightarrow> remaining u | Some x \<Rightarrow> Some x)\<rparr>)"

definition publishEntityState :: "ota_state \<Rightarrow> device \<Rightarrow> UpdatePayload \<Rightarrow> ota_state \<times> event list" where
  "publishEntityState st d payload =
     (st\<lparr>store := (store st)(ieeeAddr d \<mapsto> merge_update (store st (ieeeAddr d)) (update payload))\<rparr>,
      [PublishEntityState (ieeeAddr d) payload])"

text \<open>
  \<open>removeProgressAndRemainingFromState\<close>: deletes both keys of the stored \<open>update\<close>
  object; nothing happens when the device has none.
\<close>

definition removeProgressAndRemainingFromState :: "ota_state \<Rightarrow> device \<Rightarrow> ota_state" where
  "removeProgressAndRemainingFromState st d =
     (case store st (ieeeAddr d) of
        None \<Rightarrow> st
      | Some u \<Rightarrow> st\<lparr>store := (store st)(ieeeAddr d \<mapsto> u\<lparr>progress := None, remaining := None\<rparr>)\<rparr>)"

subsection \<open>Startup\<close>

text \<open>
  The loop of \<open>start\<close> over \<open>this.zigbee.devices(false)\<close>. The lines before it register
  the handlers and configure the provider library; they do not touch the extension's state.
\<close>

definition start_device :: "ota_state \<Rightarrow> device \<Rightarrow> ota_state" where
  "start_device st d =
     (let st1 = removeProgressAndRemainingFromState st d
      in case store st1 (ieeeAddr d) of
           None \<Rightarrow> st1
         | Some u \<Rightarrow>
             if state u = Updating
             then st1\<lparr>store := (store st1)(ieeeAddr d \<mapsto> u\<lparr>state := Available\<rparr>)\<rparr>
             else st1)"

definition start :: "env \<Rightarrow> ota_state \<Rightarrow> ota_state" where
  "start e st = foldl start_device st (devices e)"

text \<open>What the loop makes of one stored record.\<close>

definition recovered :: "update_rec \<Rightarrow> update_rec" where
  "recovered u = u\<lparr>progress := None, remaining := None,
                   state := (if state u = Updating then Available else state u)\<rparr>"

subsection \<open>Payload builder\<close>

text \<open>\<open>Math.round\<close>: the nearest integer, a half rounded up.\<close>

definition Math_round :: "real \<Rightarrow> int" where
  "Math_round x = \<lfloor>x + 1 / 2\<rfloor>"

definition getEntityPublishPayload ::
  "env \<Rightarrow> ota_state \<Rightarrow> device \<Rightarrow> state_arg \<Rightarrow> real option \<Rightarrow> real option \<Rightarrow> UpdatePayload" where
  "getEntityPublishPayload e st d s prog rem =
     (let deviceUpdateState = store st (ieeeAddr d);
          payload = \<lparr>update_available = None,
                     update = \<lparr>state = (case s of StateString x \<Rightarrow> x
                                          | Result r \<Rightarrow> if available r then Available else Idle),
                               installed_version =
                                 (case s of StateString x \<Rightarrow> Option.bind deviceUpdateState installed_version
                                  | Result r \<Rightarrow> Some (currentFileVersion r)),
                               latest_version =
                                 (case s of StateString x \<Rightarrow> Option.bind deviceUpdateState latest_version
                                  | Result r \<Rightarrow> Some (otaFileVersion r)),
                               progress = None, remaining = None\<rparr>\<rparr>;
          payload = (case prog of None \<Rightarrow> payload
                     | Some p \<Rightarrow> payload\<lparr>update := (update payload)\<lparr>progress := Some p\<rparr>\<rparr>);
          payload = (case rem of None \<Rightarrow> payload
                     | Some r \<Rightarrow> payload\<lparr>update := (update payload)\<lparr>remaining := Some (Math_round r)\<rparr>\<rparr>)
      in if legacyApi e
         then payload\<lparr>update_available :=
                Some (case s of StateString x \<Rightarrow> x = Available | Result r \<Rightarrow> available r)\<rparr>
         else payload)"

subsection \<open>Device signals: the automatic check\<close>

definition quoted :: "string \<Rightarrow> string" where
  "quoted s = [CHR 0x27] @ s @ [CHR 0x27]"

text \<open>
  Lines 125-129: the reply \<open>queryNextImageResponse\<close> with status \<open>0x98\<close>
  (\<open>NO_IMAGE_AVAILABLE\<close>), on the first endpoint with the \<open>genOta\<close> output cluster or
  else on the endpoint the request came from.
\<close>

definition respond_NO_IMAGE_AVAILABLE :: "DeviceMessage \<Rightarrow> event list" where
  "respond_NO_IMAGE_AVAILABLE data =
     (let ep = (case find supportsOutputCluster_genOta (endpoints (msg_device data)) of
                  Some x \<Rightarrow> x | None \<Rightarrow> msg_endpoint data)
      in [CommandResponse (ep_ID ep) 0x98 (zclTransactionSequenceNumber data),
          LogDebug (''Responded to OTA request of '' @ quoted (name (msg_device data)) @
                    '' with '' @ quoted ''NO_IMAGE_AVAILABLE'')])"

text \<open>
  \<open>onZigbeeEvent\<close> up to its first wait (line 101). \<open>now1\<close> and \<open>now2\<close> are the two
  readings of \<open>Date.now()\<close> (lines 93 and 96). The flag of the result tells whether the
  handler is waiting for the provider's answer; when it is not, the handler has returned.
\<close>

definition onZigbeeEvent_begin ::
  "env \<Rightarrow> ota_state \<Rightarrow> DeviceMessage \<Rightarrow> int \<Rightarrow> int \<Rightarrow> ota_state \<times> event list \<times> bool" where
  "onZigbeeEvent_begin e st data now1 now2 =
     (let d = msg_device data in
      if msg_type data \<noteq> ''commandQueryNextImageRequest'' \<or> dev_definition d = None \<or>
         ieeeAddr d \<in> inProgress st
      then (st, [], False)
      else
        let ev0 = [LogDebug (''Device '' @ quoted (name d) @ '' requested OTA'')];
            automaticOTACheckDisabled = disable_automatic_update_check e;
            supportsOTA = (dev_definition d = Some True)
        in if supportsOTA \<and> \<not> automaticOTACheckDisabled
           then
             let updateCheckInterval = update_check_interval e * 1000 * 60;
                 check = (case lastChecked st (ieeeAddr d) of
                            Some t \<Rightarrow> now1 - t > updateCheckInterval
                          | None \<Rightarrow> True)
             in if \<not> check then (st, ev0, False)
                else (st\<lparr>lastChecked := (lastChecked st)(ieeeAddr d \<mapsto> now2)\<rparr>,
                      ev0 @ [IsUpdateAvailable (ieeeAddr d) True], True)
           else (st, ev0 @ respond_NO_IMAGE_AVAILABLE data, False))"

text \<open>
  The rest of \<open>onZigbeeEvent\<close> (lines 101-129), from the provider's answer on. The last
  component of the result is \<open>None\<close> when the handler returns and the error when it
  throws: for a rejection with \<open>null\<close> or \<open>undefined\<close> the catch block throws at
  \<open>e.message\<close> (line 104), before anything is logged, published or sent.
\<close>

definition onZigbeeEvent_resume ::
  "env \<Rightarrow> ota_state \<Rightarrow> DeviceMessage \<Rightarrow> thrown + OtaUpdateAvailableResult
     \<Rightarrow> ota_state \<times> event list \<times> failure option" where
  "onZigbeeEvent_resume e st data answer =
     (case answer of
        Inl (Nullish n) \<Rightarrow> (st, [], Some TypeError)
      | _ \<Rightarrow>
        let d = msg_device data;
            availableResult = (case answer of Inl err \<Rightarrow> None | Inr r \<Rightarrow> Some r);
            ev1 = (case answer of
                     Inl (Thrown err) \<Rightarrow>
                       [LogDebug (''Failed to check if update available for '' @
                                  quoted (name d) @ '' ('' @ e_message err @ '')'')]
                   | _ \<Rightarrow> []);
            payload = getEntityPublishPayload e st d
                        (case availableResult of Some r \<Rightarrow> Result r | None \<Rightarrow> StateString Idle)
                        None None;
            (st1, ev2) = publishEntityState st d payload;
            ev3 = (if (case availableResult of Some r \<Rightarrow> available r | None \<Rightarrow> False)
                   then
                     let message = ''Update available for '' @ quoted (name d)
                     in LogInfo message #
                        (if legacy_api e
                         then [BridgeLog (Text message)
                                 \<lparr>status = ''available'', meta_device = name d,
                                  meta_progress = None, meta_from_to = None\<rparr>]
                         else [])
                   else [])
        in (st1, ev1 @ ev2 @ ev3 @ respond_NO_IMAGE_AVAILABLE data, None))"

definition onZigbeeEvent ::
  "env \<Rightarrow> ota_state \<Rightarrow> DeviceMessage \<Rightarrow> int \<Rightarrow> int \<Rightarrow> thrown + OtaUpdateAvailableResult
     \<Rightarrow> ota_state \<times> event list \<times> failure option" where
  "onZigbeeEvent e st data now1 now2 answer =
     (case onZigbeeEvent_begin e st data now1 now2 of
        (st1, ev1, waiting) \<Rightarrow>
          if waiting
          then (case onZigbeeEvent_resume e st1 data answer of
                  (st2, ev2, f) \<Rightarrow> (st2, ev1 @ ev2, f))
          else (st1, ev1, None))"

subsection \<open>Bus commands\<close>

text \<open>
  The two topic patterns, with \<open>base_topic\<close> taken as literal text. The legacy pattern
  \<open>^base/bridge/ota_update/.+$\<close> wants at least one more character and no line break
  after its prefix. The current pattern \<open>^base/bridge/request/device/ota_update/(update|check)\<close>
  has the flag \<open>i\<close> and no \<open>$\<close>: it compares letters of either case and looks at a
  prefix of the topic only.
\<close>

definition lower :: "char \<Rightarrow> char" where
  "lower c = (let n = (of_char c :: nat) in if 65 \<le> n \<and> n \<le> 90 then char_of (n + 32) else c)"

definition legacyTopicRegex :: "env \<Rightarrow> string \<Rightarrow> bool" where
  "legacyTopicRegex e t =
     (let p = base_topic e @ ''/bridge/ota_update/''; rest = drop (length p) t
      in take (length p) t = p \<and> rest \<noteq> [] \<and> list_all (\<lambda>c. c \<noteq> CHR 0x0A \<and> c \<noteq> CHR 0x0D) rest)"

definition topicRegex :: "env \<Rightarrow> string \<Rightarrow> bool" where
  "topicRegex e t =
     (let p = base_topic e @ ''/bridge/request/device/ota_update/''; rest = drop (length p) t
      in map lower (take (length p) t) = map lower p \<and>
         (map lower (take 6 rest) = ''update'' \<or> map lower (take 5 rest) = ''check''))"

text \<open>\<open>data.topic.substring(data.topic.lastIndexOf('/') + 1)\<close>\<close>

definition last_segment :: "string \<Rightarrow> string" where
  "last_segment t = rev (takeWhile (\<lambda>c. c \<noteq> CHR ''/'') (rev t))"

text \<open>Line 165: the handler goes on when this holds and returns at once when it does not.\<close>

definition accepted :: "env \<Rightarrow> string \<Rightarrow> bool" where
  "accepted e t = (\<not> ((\<not> legacyApi e \<or> \<not> legacyTopicRegex e t) \<and> \<not> topicRegex e t))"

definition request_ID :: "message \<Rightarrow> ident" where
  "request_ID m = (case m of MObject (Some i) \<Rightarrow> IdString i | MObject None \<Rightarrow> IdObject
                   | MString s \<Rightarrow> IdString s)"

definition legacy_log :: "env \<Rightarrow> log_message \<Rightarrow> log_meta \<Rightarrow> event list" where
  "legacy_log e m meta = (if legacy_api e then [BridgeLog m meta] else [])"

definition simple_meta :: "string \<Rightarrow> device \<Rightarrow> log_meta" where
  "simple_meta s d = \<lparr>status = s, meta_device = name d, meta_progress = None, meta_from_to = None\<rparr>"

text \<open>
  Lines 312-321: the response (not for a topic of the legacy shape) and the error log.
  \<open>errorStack\<close> is logged when it is not empty.
\<close>

definition conclude ::
  "env \<Rightarrow> MQTTMessage \<Rightarrow> responseData \<Rightarrow> string option \<Rightarrow> string option \<Rightarrow> event list" where
  "conclude e data rd error errorStack =
     (let triggeredViaLegacyApi = legacyTopicRegex e (topic data)
      in (if \<not> triggeredViaLegacyApi
          then [BridgeResponse (last_segment (topic data)) (msg_body data) rd error]
          else []) @
         (case error of
            None \<Rightarrow> []
          | Some er \<Rightarrow> LogError er #
              (case errorStack of None \<Rightarrow> [] | Some s \<Rightarrow> if s = [] then [] else [LogDebug s])))"

text \<open>What the handler waits for after it has taken the device's entry in the set.\<close>

datatype pending = AwaitCheck device | AwaitUpdate device

text \<open>
  \<open>onMQTTMessage\<close> up to its first wait: line 209 for a check, line 272 for an update.
  With no pending operation in the result the handler has finished.
\<close>

definition onMQTTMessage_begin ::
  "env \<Rightarrow> ota_state \<Rightarrow> MQTTMessage \<Rightarrow> ota_state \<times> event list \<times> pending option" where
  "onMQTTMessage_begin e st data =
     (if \<not> accepted e (topic data) then (st, [], None)
      else
        let ID = request_ID (msg_body data);
            type = last_segment (topic data);
            rd = \<lparr>rd_id = ID, updateAvailable = None, rd_from = None, rd_to = None\<rparr>
        in case resolveEntity e ID of
             None \<Rightarrow>
               (st, conclude e data rd
                      (Some (''Device '' @ quoted (ident_text ID) @ '' does not exist'')) None, None)
           | Some d \<Rightarrow>
               if dev_definition d \<noteq> Some True
               then
                 let error = ''Device '' @ quoted (name d) @ '' does not support OTA updates''
                 in (st, legacy_log e (Text error) (simple_meta ''not_supported'' d) @
                         conclude e data rd (Some error) None, None)
               else if ieeeAddr d \<in> inProgress st
               then
                 (st, conclude e data rd
                        (Some (''Update or check for update already in progress for '' @
                               quoted (name d))) None, None)
               else
                 let st1 = st\<lparr>inProgress := insert (ieeeAddr d) (inProgress st)\<rparr>
                 in if type = ''check''
                    then
                      let msg = ''Checking if update available for '' @ quoted (name d)
                      in (st1, [LogInfo msg] @
                               legacy_log e (Text msg) (simple_meta ''checking_if_available'' d) @
                               [IsUpdateAvailable (ieeeAddr d) False],
                          Some (AwaitCheck d))
                    else
                      let msg = ''Updating '' @ quoted (name d) @ '' to latest firmware''
                      in (st1, [LogInfo msg] @
                               legacy_log e (Text msg) (simple_meta ''update_in_progress'' d) @
                               [ReadBuildID (ieeeAddr d) True],
                          Some (AwaitUpdate d)))"

text \<open>
  The check branch from the provider's answer on (lines 209-239, then 309-321). The last
  component of the result is \<open>None\<close> when the handler returns and the error when it
  throws: for a rejection with \<open>null\<close> or \<open>undefined\<close> the catch block throws at
  \<open>e.message\<close> (line 228), and lines 229-321 do not run. A provider that resolves with
  no result object makes line 210 throw inside the \<open>try\<close>; that is the case \<open>Inl\<close> with
  the error thrown there.
\<close>

definition onMQTTMessage_check ::
  "env \<Rightarrow> ota_state \<Rightarrow> MQTTMessage \<Rightarrow> device \<Rightarrow> thrown + OtaUpdateAvailableResult \<Rightarrow> int
     \<Rightarrow> ota_state \<times> event list \<times> failure option" where
  "onMQTTMessage_check e st data d answer now =
     (let rd = \<lparr>rd_id = request_ID (msg_body data), updateAvailable = None,
                rd_from = None, rd_to = None\<rparr>
      in case answer of
           Inr availableResult \<Rightarrow>
             let msg = (if available availableResult then ''Update'' else ''No update'') @
                       '' available for '' @ quoted (name d);
                 ev1 = [LogInfo msg] @
                       legacy_log e (Text msg)
                         (simple_meta (if available availableResult then ''available''
                                       else ''not_available'') d);
                 payload = getEntityPublishPayload e st d (Result availableResult) None None;
                 (st1, ev2) = publishEntityState st d payload;
                 st2 = st1\<lparr>lastChecked := (lastChecked st1)(ieeeAddr d \<mapsto> now)\<rparr>;
                 rd1 = rd\<lparr>updateAvailable := Some (available availableResult)\<rparr>;
                 st3 = st2\<lparr>inProgress := inProgress st2 - {ieeeAddr d}\<rparr>
             in (st3, ev1 @ ev2 @ conclude e data rd1 None None, None)
         | Inl (Thrown err) \<Rightarrow>
             let error = ''Failed to check if update available for '' @ quoted (name d) @
                         '' ('' @ e_message err @ '')'';
                 errorStack = e_stack err;
                 ev1 = legacy_log e (Text error) (simple_meta ''check_failed'' d);
                 st3 = st\<lparr>inProgress := inProgress st - {ieeeAddr d}\<rparr>
             in (st3, ev1 @ conclude e data rd (Some error) (Some errorStack), None)
         | Inl (Nullish n) \<Rightarrow> (st, [], Some TypeError))"

text \<open>
  The progress callback handed to the provider (lines 254-270). The text mentions the
  remaining minutes only when \<open>remaining\<close> is truthy.
\<close>

definition onProgress ::
  "env \<Rightarrow> device \<Rightarrow> ota_state \<Rightarrow> real \<times> real option \<Rightarrow> ota_state \<times> event list" where
  "onProgress e d st pr =
     (let progress = fst pr; remaining = snd pr;
          msg = ''Update of '' @ quoted (name d) @ '' at '' @ toFixed2 e progress @ ''%'';
          msg = (case remaining of
                   None \<Rightarrow> msg
                 | Some r \<Rightarrow>
                     if r = 0 then msg
                     else msg @ '', '' @ [CHR 0xE2, CHR 0x89, CHR 0x88] @ '' '' @
                          showInt e (Math_round (r / 60)) @ '' minutes remaining'');
          payload = getEntityPublishPayload e st d (StateString Updating) (Some progress) remaining;
          (st1, ev) = publishEntityState st d payload
      in (st1, [LogInfo msg] @ ev @
               legacy_log e (Text msg)
                 \<lparr>status = ''update_progress'', meta_device = name d,
                  meta_progress = Some progress, meta_from_to = None\<rparr>))"

text \<open>The provider calls the callback any number of times while \<open>updateToLatest\<close> runs.\<close>

fun run_callbacks ::
  "env \<Rightarrow> device \<Rightarrow> ota_state \<Rightarrow> (real \<times> real option) list \<Rightarrow> ota_state \<times> event list" where
  "run_callbacks e d st [] = (st, [])"
| "run_callbacks e d st (pr # prs) =
     (case onProgress e d st pr of
        (st1, ev1) \<Rightarrow> (case run_callbacks e d st1 prs of (st2, ev2) \<Rightarrow> (st2, ev1 @ ev2)))"

text \<open>
  What the update branch waits for: the identity read before the update, the callbacks
  and the result of \<open>updateToLatest\<close> (the new file version, or what it threw), and the
  identity read after the update.
\<close>

record update_run =
  id_from :: "build_id option"
  callbacks :: "(real \<times> real option) list"
  fileVersion :: "thrown + int"
  id_to :: "build_id option"

text \<open>
  The update branch from the first identity read on (lines 272-306, then 309-321). For a
  rejection with \<open>null\<close> or \<open>undefined\<close> the catch block writes its debug line
  (line 293, where the template takes the value as text) and throws at \<open>e.message\<close>
  (line 294): lines 295-321 do not run.
\<close>

definition onMQTTMessage_update ::
  "env \<Rightarrow> ota_state \<Rightarrow> MQTTMessage \<Rightarrow> device \<Rightarrow> update_run
     \<Rightarrow> ota_state \<times> event list \<times> failure option" where
  "onMQTTMessage_update e st data d run =
     (let rd = \<lparr>rd_id = request_ID (msg_body data), updateAvailable = None,
                rd_from = None, rd_to = None\<rparr>;
          (st1, ev1) = run_callbacks e d st (callbacks run);
          ev1 = UpdateToLatest (ieeeAddr d) # ev1
      in case fileVersion run of
           Inr v \<Rightarrow>
             let ev2 = [LogInfo (''Finished update of '' @ quoted (name d)),
                        EmitReconfigure (ieeeAddr d)];
                 st2 = removeProgressAndRemainingFromState st1 d;
                 payload = getEntityPublishPayload e st2 d
                             (Result \<lparr>available = False, currentFileVersion = v, otaFileVersion = v\<rparr>)
                             None None;
                 (st3, ev3) = publishEntityState st2 d payload;
                 ev4 = [ReadBuildID (ieeeAddr d) False,
                        LogInfo (''Device '' @ quoted (name d) @ '' was updated from '' @
                                 quoted (stringify_build_id e (id_from run)) @ '' to '' @
                                 quoted (stringify_build_id e (id_to run)))];
                 rd1 = rd\<lparr>rd_from := Some (id_from run), rd_to := Some (id_to run)\<rparr>;
                 ev5 = [EmitDevicesChanged] @
                       legacy_log e (Request (msg_body data))
                         \<lparr>status = ''update_succeeded'', meta_device = name d,
                          meta_progress = None, meta_from_to = Some (id_from run, id_to run)\<rparr>;
                 st4 = st3\<lparr>inProgress := inProgress st3 - {ieeeAddr d}\<rparr>
             in (st4, ev1 @ ev2 @ ev3 @ ev4 @ ev5 @ conclude e data rd1 None None, None)
         | Inl (Nullish n) \<Rightarrow>
             (st1, ev1 @ [LogDebug (''Update of '' @ quoted (name d) @ '' failed ('' @
                                    nullish_text n @ '')'')],
              Some TypeError)
         | Inl (Thrown err) \<Rightarrow>
             let ev2 = [LogDebug (''Update of '' @ quoted (name d) @ '' failed ('' @
                                  e_string err @ '')'')];
                 error = ''Update of '' @ quoted (name d) @ '' failed ('' @ e_message err @ '')'';
                 errorStack = e_stack err;
                 st2 = removeProgressAndRemainingFromState st1 d;
                 payload = getEntityPublishPayload e st2 d (StateString Available) None None;
                 (st3, ev3) = publishEntityState st2 d payload;
                 ev4 = legacy_log e (Text error) (simple_meta ''update_failed'' d);
                 st4 = st3\<lparr>inProgress := inProgress st3 - {ieeeAddr d}\<rparr>
             in (st4, ev1 @ ev2 @ ev3 @ ev4 @ conclude e data rd (Some error) (Some errorStack),
                 None))"

text \<open>
  Everything a command may wait for: the answer and the time of a check, and the run of an
  update.
\<close>

record answers =
  availableResult :: "thrown + OtaUpdateAvailableResult"
  check_now :: int
  update_answers :: update_run

definition onMQTTMessage_resume ::
  "env \<Rightarrow> ota_state \<Rightarrow> MQTTMessage \<Rightarrow> pending \<Rightarrow> answers
     \<Rightarrow> ota_state \<times> event list \<times> failure option" where
  "onMQTTMessage_resume e st data p a =
     (case p of
        AwaitCheck d \<Rightarrow> onMQTTMessage_check e st data d (availableResult a) (check_now a)
      | AwaitUpdate d \<Rightarrow> onMQTTMessage_update e st data d (update_answers a))"

text \<open>
  The whole handler, run without anything else in between: the state it leaves, what it
  did, and the error when it throws.
\<close>

definition onMQTTMessage ::
  "env \<Rightarrow> ota_state \<Rightarrow> MQTTMessage \<Rightarrow> answers \<Rightarrow> ota_state \<times> event list \<times> failure option" where
  "onMQTTMessage e st data a =
     (case onMQTTMessage_begin e st data of
        (st1, ev1, None) \<Rightarrow> (st1, ev1, None)
      | (st1, ev1, Some p) \<Rightarrow>
          (case onMQTTMessage_resume e st1 data p a of (st2, ev2, f) \<Rightarrow> (st2, ev1 @ ev2, f)))"

subsection \<open>Handlers taking turns\<close>

text \<open>
  The handlers run on one thread and give way to each other only where they wait. A
  schedule lists what happens in which order: a command or a device signal arrives and its
  handler runs up to its first wait, or a waiting handler gets its answers and runs to
  its end. The waits of one update (the two identity reads and the provider's update with
  its callbacks) are taken together; nothing in between touches the In-Progress Set.
  \<open>commands\<close> and \<open>signals\<close> hold the handlers that are waiting, \<open>trace\<close>
  everything done so far. A handler that throws has ended like one that returns: it is
  no longer waiting, and the state is as it left it. An index that names no waiting
  handler does nothing.
\<close>

datatype action =
    Command MQTTMessage
  | CommandDone nat answers
  | Signal DeviceMessage int int
  | SignalDone nat "thrown + OtaUpdateAvailableResult"

record config =
  ota :: ota_state
  commands :: "(MQTTMessage \<times> pending) list"
  signals :: "DeviceMessage list"
  trace :: "event list"

fun step :: "env \<Rightarrow> config \<Rightarrow> action \<Rightarrow> config" where
  "step e c (Command data) =
     (case onMQTTMessage_begin e (ota c) data of
        (st1, ev, p) \<Rightarrow>
          c\<lparr>ota := st1,
            commands := commands c @ (case p of None \<Rightarrow> [] | Some q \<Rightarrow> [(data, q)]),
            trace := trace c @ ev\<rparr>)"
| "step e c (CommandDone i a) =
     (if i < length (commands c)
      then (case commands c ! i of
              (data, q) \<Rightarrow>
                (case onMQTTMessage_resume e (ota c) data q a of
                   (st1, ev, f) \<Rightarrow>
                     c\<lparr>ota := st1,
                       commands := take i (commands c) @ drop (Suc i) (commands c),
                       trace := trace c @ ev\<rparr>))
      else c)"
| "step e c (Signal data now1 now2) =
     (case onZigbeeEvent_begin e (ota c) data now1 now2 of
        (st1, ev, waiting) \<Rightarrow>
          c\<lparr>ota := st1,
            signals := signals c @ (if waiting then [data] else []),
            trace := trace c @ ev\<rparr>)"
| "step e c (SignalDone i answer) =
     (if i < length (signals c)
      then (case onZigbeeEvent_resume e (ota c) (signals c ! i) answer of
              (st1, ev, f) \<Rightarrow>
                c\<lparr>ota := st1,
                  signals := take i (signals c) @ drop (Suc i) (signals c),
                  trace := trace c @ ev\<rparr>)
      else c)"

definition run :: "env \<Rightarrow> config \<Rightarrow> action list \<Rightarrow> config" where
  "run e c sched = foldl (step e) c sched"

text \<open>The device a waiting command holds in the In-Progress Set.\<close>

fun in_flight :: "MQTTMessage \<times> pending \<Rightarrow> string" where
  "in_flight (data, AwaitCheck d) = ieeeAddr d"
| "in_flight (data, AwaitUpdate d) = ieeeAddr d"

subsection \<open>Reading a trace\<close>

fun is_availability_query :: "event \<Rightarrow> bool" where
  "is_availability_query (IsUpdateAvailable a b) = True"
| "is_availability_query x = False"

fun is_state_publication :: "event \<Rightarrow> bool" where
  "is_state_publication (PublishEntityState a p) = True"
| "is_state_publication x = False"

fun is_lifecycle :: "event \<Rightarrow> bool" where
  "is_lifecycle (EmitReconfigure a) = True"
| "is_lifecycle EmitDevicesChanged = True"
| "is_lifecycle x = False"

fun is_NO_IMAGE_AVAILABLE :: "event \<Rightarrow> bool" where
  "is_NO_IMAGE_AVAILABLE (CommandResponse ep st tsn) = (st = 0x98)"
| "is_NO_IMAGE_AVAILABLE x = False"

text \<open>The responses published to the requester.\<close>

fun is_response :: "event \<Rightarrow> bool" where
  "is_response (BridgeResponse t m rd er) = True"
| "is_response x = False"

text \<open>The calls of the provider: the availability query and the update.\<close>

fun is_provider_call :: "event \<Rightarrow> bool" where
  "is_provider_call (IsUpdateAvailable a b) = True"
| "is_provider_call (UpdateToLatest a) = True"
| "is_provider_call x = False"

text \<open>The error texts of the responses published to the requester.\<close>

fun response_errors :: "event list \<Rightarrow> string list" where
  "response_errors [] = []"
| "response_errors (BridgeResponse t m rd er # xs) =
     (case er of None \<Rightarrow> [] | Some x \<Rightarrow> [x]) @ response_errors xs"
| "response_errors (x # xs) = response_errors xs"

text \<open>The texts written to the debug log.\<close>

fun debug_lines :: "event list \<Rightarrow> string list" where
  "debug_lines [] = []"
| "debug_lines (LogDebug x # xs) = x # debug_lines xs"
| "debug_lines (x # xs) = debug_lines xs"

text \<open>\<open>occurs_in s t\<close>: the text \<open>s\<close> is a part of the text \<open>t\<close>.\<close>

fun occurs_in :: "string \<Rightarrow> string \<Rightarrow> bool" where
  "occurs_in s [] = (s = [])"
| "occurs_in s (c # t) = (take (length s) (c # t) = s \<or> occurs_in s t)"

subsection \<open>A small installation\<close>

definition bulb :: device where
  "bulb = \<lparr>ieeeAddr = ''0x01'', name = ''bulb'', dev_definition = Some True,
           endpoints = [\<lparr>ep_ID = 1, supportsOutputCluster_genOta = True\<rparr>]\<rparr>"

definition plug :: device where
  "plug = \<lparr>ieeeAddr = ''0x02'', name = ''plug'', dev_definition = Some True,
           endpoints = [\<lparr>ep_ID = 1, supportsOutputCluster_genOta = False\<rparr>]\<rparr>"

definition env0 :: env where
  "env0 = \<lparr>base_topic = ''z2m'', legacyApi = False, legacy_api = False,
           disable_automatic_update_check = False, update_check_interval = 1440,
           resolveEntity = (\<lambda>i. if i = IdString ''bulb'' then Some bulb
                                 else if i = IdString ''plug'' then Some plug else None),
           devices = [bulb, plug],
           toFixed2 = (\<lambda>x. ''50.00''), showInt = (\<lambda>x. ''1''),
           stringify_build_id = (\<lambda>x. ''null'')\<rparr>"

definition st0 :: ota_state where
  "st0 = \<lparr>inProgress = {}, lastChecked = Map.empty,
          store = [''0x01'' \<mapsto> \<lparr>state = Updating, installed_version = Some 5,
                                 latest_version = Some 7, progress = Some 40,
                                 remaining = Some 90\<rparr>]\<rparr>"

definition check_bulb :: MQTTMessage where
  "check_bulb = \<lparr>topic = ''z2m/bridge/request/device/ota_update/check'',
                 msg_body = MObject (Some ''bulb'')\<rparr>"

definition update_bulb :: MQTTMessage where
  "update_bulb = \<lparr>topic = ''z2m/bridge/request/device/ota_update/update'',
                  msg_body = MObject (Some ''bulb'')\<rparr>"

definition update_plug :: MQTTMessage where
  "update_plug = \<lparr>topic = ''z2m/bridge/request/device/ota_update/update'',
                  msg_body = MObject (Some ''plug'')\<rparr>"


definition boom :: js_error where
  "boom = \<lparr>e_message = ''boom'', e_stack = ''Error: boom at ota.js:1'',
           e_string = ''Error: boom''\<rparr>"

definition failing :: answers where
  "failing = \<lparr>availableResult = Inl (Thrown boom), check_now = 1000,
              update_answers = \<lparr>id_from = None, callbacks = [(50, Some 120)],
                                fileVersion = Inl (Thrown boom), id_to = None\<rparr>\<rparr>"

text \<open>The provider rejects with \<open>undefined\<close>.\<close>

definition rejecting :: answers where
  "rejecting = \<lparr>availableResult = Inl (Nullish JSUndefined), check_now = 1000,
                update_answers = \<lparr>id_from = None, callbacks = [(50, Some 120)],
                                  fileVersion = Inl (Nullish JSUndefined), id_to = None\<rparr>\<rparr>"

definition succeeding :: answers where
  "succeeding = \<lparr>availableResult = Inr \<lparr>available = True, currentFileVersion = 5,
                                         otaFileVersion = 7\<rparr>,
                 check_now = 1000,
                 update_answers = \<lparr>id_from = Some \<lparr>softwareBuildID = ''1.0'', dateCode = ''2020''\<rparr>,
                                   callbacks = [(50, Some 120)],
                                   fileVersion = Inr 7, id_to = None\<rparr>\<rparr>"

definition next_image_request :: DeviceMessage where
  "next_image_request = \<lparr>msg_type = ''commandQueryNextImageRequest'', msg_device = bulb,
                         msg_endpoint = \<lparr>ep_ID = 1, supportsOutputCluster_genOta = True\<rparr>,
                         zclTransactionSequenceNumber = 9\<rparr>"

text \<open>The installation before anything has arrived.\<close>

definition c00 :: config where
  "c00 = \<lparr>ota = st0, commands = [], signals = [], trace = []\<rparr>"

subsection \<open>Operations in flight\<close>

text \<open>
  The operations in flight for a device: the waiting commands that hold it, and the
  waiting automatic checks of it.
\<close>

definition commands_in_flight :: "config \<Rightarrow> string \<Rightarrow> nat" where
  "commands_in_flight c a = length (filter (\<lambda>t. in_flight t = a) (commands c))"

definition checks_in_flight :: "config \<Rightarrow> string \<Rightarrow> nat" where
  "checks_in_flight c a = length (filter (\<lambda>d. ieeeAddr (msg_device d) = a) (signals c))"

definition operations_in_flight :: "config \<Rightarrow> string \<Rightarrow> nat" where
  "operations_in_flight c a = commands_in_flight c a + checks_in_flight c a"

text \<open>
  The waiting commands hold different devices, and every device they hold is in the
  In-Progress Set.
\<close>

definition one_each :: "config \<Rightarrow> bool" where
  "one_each c \<longleftrightarrow> distinct (map in_flight (commands c)) \<and>
                  set (map in_flight (commands c)) \<subseteq> inProgress (ota c)"

section \<open>Properties\<close>

subsection \<open>Payload builder\<close>

lemma Math_round_nearest: "\<bar>real_of_int (Math_round r) - r\<bar> * 2 \<le> 1"
proof -
  have "\<bar>real_of_int \<lfloor>r + 1 / 2\<rfloor> - r\<bar> \<le> 1 / 2"
    by linarith
  then show ?thesis
    by (simp add: Math_round_def)
qed

text \<open>
  Claim C8. The payload builder returns the \<open>update\<close> object with \<open>state\<close>,
  \<open>installed_version\<close> and \<open>latest_version\<close>: a state string is passed on with the
  versions the device has in the state store, an availability result becomes
  \<open>available\<close> or \<open>idle\<close> with the versions of the result. \<open>progress\<close> is there exactly
  when a progress value is given, \<open>remaining\<close> exactly when a remaining value is given and
  is then an integer nearest to it; \<open>update_available\<close> is there exactly when
  \<open>this.legacyApi\<close> is set and tells whether the state or the result says "available".
  The builder returns the payload and nothing else: it reads the state store and changes
  nothing.
\<close>

theorem getEntityPublishPayload_shape:
  "getEntityPublishPayload e st d s prog rem =
     \<lparr>update_available =
        (if legacyApi e
         then Some (case s of StateString x \<Rightarrow> x = Available | Result r \<Rightarrow> available r)
         else None),
      update =
        \<lparr>state = (case s of StateString x \<Rightarrow> x
                  | Result r \<Rightarrow> if available r then Available else Idle),
         installed_version =
           (case s of StateString x \<Rightarrow> Option.bind (store st (ieeeAddr d)) installed_version
            | Result r \<Rightarrow> Some (currentFileVersion r)),
         latest_version =
           (case s of StateString x \<Rightarrow> Option.bind (store st (ieeeAddr d)) latest_version
            | Result r \<Rightarrow> Some (otaFileVersion r)),
         progress = prog,
         remaining = map_option Math_round rem\<rparr>\<rparr>
   \<and> (case rem of
        None \<Rightarrow> remaining (update (getEntityPublishPayload e st d s prog rem)) = None
      | Some r \<Rightarrow>
          (case remaining (update (getEntityPublishPayload e st d s prog rem)) of
             None \<Rightarrow> False
           | Some n \<Rightarrow> \<bar>real_of_int n - r\<bar> \<le> 1 / 2))"
  by (cases prog; cases rem)
     (simp_all add: getEntityPublishPayload_def Let_def Math_round_nearest)

theorem getEntityPublishPayload_shape_witness:
  "getEntityPublishPayload env0 st0 bulb (StateString Updating) (Some 50) (Some (5 / 2)) =
     \<lparr>update_available = None,
      update = \<lparr>state = Updating, installed_version = Some 5, latest_version = Some 7,
                progress = Some 50, remaining = Some 3\<rparr>\<rparr>"
  using getEntityPublishPayload_shape [of env0 st0 bulb "StateString Updating" "Some 50" "Some (5 / 2)"]
  by (simp add: env0_def st0_def bulb_def Math_round_def)

subsection \<open>Startup\<close>

lemma start_device_store:
  "store (start_device st d) =
     (store st)(ieeeAddr d := map_option recovered (store st (ieeeAddr d)))"
  by (auto simp: start_device_def removeProgressAndRemainingFromState_def recovered_def Let_def
           split: option.splits)

lemma recovered_idem: "recovered (recovered u) = recovered u"
  by (simp add: recovered_def)

lemma foldl_start_device_store:
  "store (foldl start_device st ds) k =
     (if k \<in> ieeeAddr ` set ds then map_option recovered (store st k) else store st k)"
proof (induction ds arbitrary: st)
  case Nil
  then show ?case by simp
next
  case (Cons d ds)
  show ?case
    by (cases "store st k") (auto simp: Cons.IH start_device_store recovered_idem)
qed

text \<open>
  Claim C6. On startup the stored update record of every known device loses \<open>progress\<close>
  and \<open>remaining\<close>, a record in state \<open>updating\<close> goes to \<open>available\<close>, and a record in
  another state keeps its state. The versions stay, and so do the records of devices that
  are not known.
\<close>

theorem start_recovers_records:
  "store (start e st) k =
     (if k \<in> ieeeAddr ` set (devices e)
      then map_option (\<lambda>u. u\<lparr>progress := None, remaining := None,
                             state := (if state u = Updating then Available else state u)\<rparr>)
             (store st k)
      else store st k)"
  unfolding start_def foldl_start_device_store recovered_def by (rule refl)

theorem start_recovers_records_witness:
  "store (start env0 st0) ''0x01'' =
     Some \<lparr>state = Available, installed_version = Some 5, latest_version = Some 7,
           progress = None, remaining = None\<rparr>"
  by (simp add: start_recovers_records env0_def st0_def bulb_def plug_def)

subsection \<open>The In-Progress Set\<close>

lemma publishEntityState_frame:
  "inProgress (fst (publishEntityState st d p)) = inProgress st"
  "lastChecked (fst (publishEntityState st d p)) = lastChecked st"
  by (simp_all add: publishEntityState_def)

lemma removeProgress_frame:
  "inProgress (removeProgressAndRemainingFromState st d) = inProgress st"
  "lastChecked (removeProgressAndRemainingFromState st d) = lastChecked st"
  by (simp_all add: removeProgressAndRemainingFromState_def split: option.splits)

lemma onProgress_frame:
  "inProgress (fst (onProgress e d st pr)) = inProgress st"
  "lastChecked (fst (onProgress e d st pr)) = lastChecked st"
  by (simp_all add: onProgress_def Let_def publishEntityState_def split: prod.splits)

lemma run_callbacks_frame:
  "inProgress (fst (run_callbacks e d st prs)) = inProgress st \<and>
   lastChecked (fst (run_callbacks e d st prs)) = lastChecked st"
proof (induction prs arbitrary: st)
  case Nil
  then show ?case by simp
next
  case (Cons pr prs)
  obtain st1 ev1 where s1: "onProgress e d st pr = (st1, ev1)"
    by (cases "onProgress e d st pr")
  obtain st2 ev2 where s2: "run_callbacks e d st1 prs = (st2, ev2)"
    by (cases "run_callbacks e d st1 prs")
  from onProgress_frame [of e d st pr] s1
  have "inProgress st1 = inProgress st" "lastChecked st1 = lastChecked st"
    by simp_all
  with Cons.IH [of st1] s1 s2 show ?case
    by simp
qed

text \<open>
  A handler that returns has removed its entry; one that throws has left the set as it
  was.
\<close>

lemma onMQTTMessage_check_inProgress:
  "inProgress (fst (onMQTTMessage_check e st data d answer now)) =
     (if snd (snd (onMQTTMessage_check e st data d answer now)) = None
      then inProgress st - {ieeeAddr d} else inProgress st)"
proof (cases answer)
  case (Inl t)
  then show ?thesis
    by (cases t) (simp_all add: onMQTTMessage_check_def Let_def)
next
  case (Inr r)
  then show ?thesis
    by (simp add: onMQTTMessage_check_def Let_def publishEntityState_def)
qed

lemma onMQTTMessage_update_inProgress:
  "inProgress (fst (onMQTTMessage_update e st data d r)) =
     (if snd (snd (onMQTTMessage_update e st data d r)) = None
      then inProgress st - {ieeeAddr d} else inProgress st)"
proof -
  obtain st1 ev1 where s1: "run_callbacks e d st (callbacks r) = (st1, ev1)"
    by (cases "run_callbacks e d st (callbacks r)")
  with run_callbacks_frame [of e d st "callbacks r"] have i: "inProgress st1 = inProgress st"
    by simp
  show ?thesis
  proof (cases "fileVersion r")
    case (Inl t)
    with s1 i show ?thesis
      by (cases t)
         (simp_all add: onMQTTMessage_update_def Let_def publishEntityState_def removeProgress_frame)
  next
    case (Inr v)
    with s1 i show ?thesis
      by (simp add: onMQTTMessage_update_def Let_def publishEntityState_def removeProgress_frame)
  qed
qed

lemma onMQTTMessage_resume_inProgress:
  "inProgress (fst (onMQTTMessage_resume e st data q a)) =
     (if snd (snd (onMQTTMessage_resume e st data q a)) = None
      then inProgress st - {in_flight (data, q)} else inProgress st)"
  by (cases q)
     (simp_all add: onMQTTMessage_resume_def onMQTTMessage_check_inProgress
        onMQTTMessage_update_inProgress)

lemma onMQTTMessage_resume_inProgress_bounds:
  "inProgress st - {in_flight (data, q)} \<subseteq> inProgress (fst (onMQTTMessage_resume e st data q a))"
  "inProgress (fst (onMQTTMessage_resume e st data q a)) \<subseteq> inProgress st"
  by (auto simp: onMQTTMessage_resume_inProgress)

lemma onMQTTMessage_begin_finished:
  "onMQTTMessage_begin e st data = (st1, ev, None) \<Longrightarrow> st1 = st"
  by (auto simp: onMQTTMessage_begin_def Let_def split: if_splits option.splits)

lemma onMQTTMessage_begin_waiting:
  "onMQTTMessage_begin e st data = (st1, ev, Some q) \<Longrightarrow>
     in_flight (data, q) \<notin> inProgress st \<and>
     st1 = st\<lparr>inProgress := insert (in_flight (data, q)) (inProgress st)\<rparr>"
  by (auto simp: onMQTTMessage_begin_def Let_def split: if_splits option.splits)

lemma onZigbeeEvent_begin_inProgress:
  "inProgress (fst (onZigbeeEvent_begin e st data now1 now2)) = inProgress st"
  by (simp add: onZigbeeEvent_begin_def Let_def split: option.splits)

lemma onZigbeeEvent_resume_inProgress:
  "inProgress (fst (onZigbeeEvent_resume e st data answer)) = inProgress st"
proof (cases answer)
  case (Inl t)
  then show ?thesis
    by (cases t) (simp_all add: onZigbeeEvent_resume_def Let_def publishEntityState_def)
next
  case (Inr r)
  then show ?thesis
    by (simp add: onZigbeeEvent_resume_def Let_def publishEntityState_def)
qed

lemma one_each_step: "one_each c \<Longrightarrow> one_each (step e c a)"
proof (cases a)
  case (Command data)
  assume inv: "one_each c"
  obtain st1 ev p where b: "onMQTTMessage_begin e (ota c) data = (st1, ev, p)"
    by (cases "onMQTTMessage_begin e (ota c) data") auto
  show ?thesis
  proof (cases p)
    case None
    with b have "st1 = ota c" by (simp add: onMQTTMessage_begin_finished)
    with inv b None Command show ?thesis by (simp add: one_each_def)
  next
    case (Some q)
    with b onMQTTMessage_begin_waiting [of e "ota c" data st1 ev q]
    have "in_flight (data, q) \<notin> inProgress (ota c)"
      and "inProgress st1 = insert (in_flight (data, q)) (inProgress (ota c))"
      by simp_all
    with inv b Some Command show ?thesis by (auto simp: one_each_def)
  qed
next
  case (CommandDone i ans)
  assume inv: "one_each c"
  show ?thesis
  proof (cases "i < length (commands c)")
    case False
    with inv CommandDone show ?thesis by simp
  next
    case True
    obtain data q where t: "commands c ! i = (data, q)"
      by (cases "commands c ! i")
    obtain st1 ev f where r: "onMQTTMessage_resume e (ota c) data q ans = (st1, ev, f)"
      by (cases "onMQTTMessage_resume e (ota c) data q ans") auto
    with onMQTTMessage_resume_inProgress_bounds(1) [of "ota c" data q e ans]
    have st1: "inProgress (ota c) - {in_flight (data, q)} \<subseteq> inProgress st1"
      by simp
    from True t have split: "commands c = take i (commands c) @ (data, q) # drop (Suc i) (commands c)"
      by (metis id_take_nth_drop)
    define xs ys where "xs = take i (commands c)" and "ys = drop (Suc i) (commands c)"
    with split have cs: "commands c = xs @ (data, q) # ys" by simp
    from inv cs have d: "distinct (map in_flight (xs @ ys))"
      and n: "in_flight (data, q) \<notin> set (map in_flight (xs @ ys))"
      and s: "set (map in_flight (xs @ ys)) \<subseteq> inProgress (ota c)"
      by (auto simp: one_each_def)
    from s n st1 have "set (map in_flight (xs @ ys)) \<subseteq> inProgress st1"
      by blast
    with d True t r CommandDone xs_def ys_def show ?thesis
      by (simp add: one_each_def)
  qed
next
  case (Signal data now1 now2)
  assume inv: "one_each c"
  obtain st1 ev w where b: "onZigbeeEvent_begin e (ota c) data now1 now2 = (st1, ev, w)"
    by (cases "onZigbeeEvent_begin e (ota c) data now1 now2") auto
  with onZigbeeEvent_begin_inProgress [of e "ota c" data now1 now2]
  have "inProgress st1 = inProgress (ota c)" by simp
  with inv b Signal show ?thesis by (simp add: one_each_def)
next
  case (SignalDone i answer)
  assume inv: "one_each c"
  show ?thesis
  proof (cases "i < length (signals c)")
    case False
    with inv SignalDone show ?thesis by simp
  next
    case True
    obtain st1 ev f where r: "onZigbeeEvent_resume e (ota c) (signals c ! i) answer = (st1, ev, f)"
      by (cases "onZigbeeEvent_resume e (ota c) (signals c ! i) answer") auto
    with onZigbeeEvent_resume_inProgress [of e "ota c" "signals c ! i" answer]
    have "inProgress st1 = inProgress (ota c)" by simp
    with inv r True SignalDone show ?thesis by (simp add: one_each_def)
  qed
qed

lemma one_each_run: "one_each c \<Longrightarrow> one_each (run e c sched)"
  unfolding run_def by (induction sched arbitrary: c) (simp_all add: one_each_step)

lemma distinct_count_le_one:
  "distinct (map f xs) \<Longrightarrow> length (filter (\<lambda>t. f t = a) xs) \<le> Suc 0"
proof (induction xs)
  case Nil
  then show ?case by simp
next
  case (Cons x xs)
  show ?case
  proof (cases "f x = a")
    case True
    with Cons.prems have "filter (\<lambda>t. f t = a) xs = []"
      by (auto simp: filter_empty_conv image_iff)
    with True show ?thesis by simp
  next
    case False
    with Cons show ?thesis by simp
  qed
qed

lemma getEntityPublishPayload_inProgress:
  "getEntityPublishPayload e (st\<lparr>inProgress := X\<rparr>) d s p r = getEntityPublishPayload e st d s p r"
  by (simp add: getEntityPublishPayload_def)

lemma publishEntityState_set_inProgress:
  "publishEntityState (st\<lparr>inProgress := X\<rparr>) d p =
     ((fst (publishEntityState st d p))\<lparr>inProgress := X\<rparr>, snd (publishEntityState st d p))"
  by (simp add: publishEntityState_def)

lemma removeProgress_set_inProgress:
  "removeProgressAndRemainingFromState (st\<lparr>inProgress := X\<rparr>) d =
     (removeProgressAndRemainingFromState st d)\<lparr>inProgress := X\<rparr>"
  by (simp add: removeProgressAndRemainingFromState_def split: option.splits)

lemma onProgress_set_inProgress:
  "onProgress e d (st\<lparr>inProgress := X\<rparr>) pr =
     ((fst (onProgress e d st pr))\<lparr>inProgress := X\<rparr>, snd (onProgress e d st pr))"
  by (simp add: onProgress_def Let_def getEntityPublishPayload_inProgress
        publishEntityState_def split: prod.splits)

lemma run_callbacks_set_inProgress:
  "run_callbacks e d (st\<lparr>inProgress := X\<rparr>) prs =
     ((fst (run_callbacks e d st prs))\<lparr>inProgress := X\<rparr>, snd (run_callbacks e d st prs))"
proof (induction prs arbitrary: st)
  case Nil
  then show ?case by simp
next
  case (Cons pr prs)
  show ?case
    by (simp add: onProgress_set_inProgress Cons.IH split: prod.splits)
qed

lemma onMQTTMessage_check_set_inProgress:
  "onMQTTMessage_check e (st\<lparr>inProgress := X\<rparr>) data d answer now =
     ((fst (onMQTTMessage_check e st data d answer now))
        \<lparr>inProgress := (if snd (snd (onMQTTMessage_check e st data d answer now)) = None
                        then X - {ieeeAddr d} else X)\<rparr>,
      snd (onMQTTMessage_check e st data d answer now))"
proof (cases answer)
  case (Inl t)
  then show ?thesis
    by (cases t) (simp_all add: onMQTTMessage_check_def Let_def)
next
  case (Inr r)
  then show ?thesis
    by (simp add: onMQTTMessage_check_def Let_def publishEntityState_def
          getEntityPublishPayload_inProgress)
qed

lemma onMQTTMessage_update_set_inProgress:
  "onMQTTMessage_update e (st\<lparr>inProgress := X\<rparr>) data d r =
     ((fst (onMQTTMessage_update e st data d r))
        \<lparr>inProgress := (if snd (snd (onMQTTMessage_update e st data d r)) = None
                        then X - {ieeeAddr d} else X)\<rparr>,
      snd (onMQTTMessage_update e st data d r))"
proof (cases "fileVersion r")
  case (Inl t)
  then show ?thesis
    by (cases t)
       (simp_all add: onMQTTMessage_update_def Let_def run_callbacks_set_inProgress
          removeProgress_set_inProgress getEntityPublishPayload_inProgress
          publishEntityState_def split: prod.splits)
next
  case (Inr v)
  then show ?thesis
    by (simp add: onMQTTMessage_update_def Let_def run_callbacks_set_inProgress
          removeProgress_set_inProgress getEntityPublishPayload_inProgress
          publishEntityState_def split: prod.splits)
qed

lemma onMQTTMessage_resume_set_inProgress:
  "onMQTTMessage_resume e (st\<lparr>inProgress := X\<rparr>) data q a =
     ((fst (onMQTTMessage_resume e st data q a))
        \<lparr>inProgress := (if snd (snd (onMQTTMessage_resume e st data q a)) = None
                        then X - {in_flight (data, q)} else X)\<rparr>,
      snd (onMQTTMessage_resume e st data q a))"
  by (cases q)
     (simp_all add: onMQTTMessage_resume_def onMQTTMessage_check_set_inProgress
        onMQTTMessage_update_set_inProgress)

lemma onMQTTMessage_begin_other_device:
  assumes "resolveEntity e (request_ID (msg_body data)) = Some d" and "a \<noteq> ieeeAddr d"
  shows "onMQTTMessage_begin e (st\<lparr>inProgress := insert a (inProgress st)\<rparr>) data =
           (case onMQTTMessage_begin e st data of
              (st1, ev, p) \<Rightarrow> (st1\<lparr>inProgress := insert a (inProgress st1)\<rparr>, ev, p))"
  using assms by (auto simp: onMQTTMessage_begin_def Let_def insert_commute)

lemma onMQTTMessage_begin_device:
  "onMQTTMessage_begin e st data = (st1, ev, Some q) \<Longrightarrow>
     resolveEntity e (request_ID (msg_body data)) = Some d \<Longrightarrow> in_flight (data, q) = ieeeAddr d"
  by (auto simp: onMQTTMessage_begin_def Let_def split: if_splits option.splits)

lemma onMQTTMessage_other_device:
  assumes r: "resolveEntity e (request_ID (msg_body data)) = Some d" and a: "a \<noteq> ieeeAddr d"
  shows "onMQTTMessage e (st\<lparr>inProgress := insert a (inProgress st)\<rparr>) data ans =
           (case onMQTTMessage e st data ans of
              (st2, ev, f) \<Rightarrow> (st2\<lparr>inProgress := insert a (inProgress st2)\<rparr>, ev, f))"
proof -
  obtain st1 ev1 p where b: "onMQTTMessage_begin e st data = (st1, ev1, p)"
    by (cases "onMQTTMessage_begin e st data") auto
  with onMQTTMessage_begin_other_device [OF r a, of st]
  have b': "onMQTTMessage_begin e (st\<lparr>inProgress := insert a (inProgress st)\<rparr>) data =
              (st1\<lparr>inProgress := insert a (inProgress st1)\<rparr>, ev1, p)"
    by simp
  show ?thesis
  proof (cases p)
    case None
    with b b' show ?thesis by (simp add: onMQTTMessage_def)
  next
    case (Some q)
    with b r have f: "in_flight (data, q) = ieeeAddr d"
      by (simp add: onMQTTMessage_begin_device)
    obtain st2 ev2 f2 where res: "onMQTTMessage_resume e st1 data q ans = (st2, ev2, f2)"
      by (cases "onMQTTMessage_resume e st1 data q ans") auto
    with onMQTTMessage_resume_inProgress [of e st1 data q ans] f
    have st2: "inProgress st2 = (if f2 = None then inProgress st1 - {ieeeAddr d} else inProgress st1)"
      by simp
    from a have "insert a (inProgress st1) - {ieeeAddr d} = insert a (inProgress st1 - {ieeeAddr d})"
      by auto
    with b b' Some res st2 f show ?thesis
      by (simp add: onMQTTMessage_def onMQTTMessage_resume_set_inProgress)
  qed
qed

lemma onMQTTMessage_begin_busy:
  assumes "accepted e (topic data)"
    and "resolveEntity e (request_ID (msg_body data)) = Some d"
    and "dev_definition d = Some True"
    and "ieeeAddr d \<in> inProgress st"
  shows "onMQTTMessage_begin e st data =
           (st,
            (if legacyTopicRegex e (topic data) then []
             else [BridgeResponse (last_segment (topic data)) (msg_body data)
                     \<lparr>rd_id = request_ID (msg_body data), updateAvailable = None,
                      rd_from = None, rd_to = None\<rparr>
                     (Some (''Update or check for update already in progress for '' @
                            quoted (name d)))]) @
            [LogError (''Update or check for update already in progress for '' @ quoted (name d))],
            None)"
  using assms by (simp add: onMQTTMessage_begin_def Let_def conclude_def)

lemma onZigbeeEvent_begin_busy:
  "ieeeAddr (msg_device data) \<in> inProgress st \<Longrightarrow>
     onZigbeeEvent_begin e st data now1 now2 = (st, [], False)"
  by (simp add: onZigbeeEvent_begin_def)

text \<open>Unfolding the installation.\<close>

lemmas ev_simps = env0_def st0_def bulb_def plug_def check_bulb_def update_bulb_def update_plug_def
  accepted_def topicRegex_def legacyTopicRegex_def lower_def request_ID_def
  onMQTTMessage_begin_def last_segment_def Let_def quoted_def conclude_def legacy_log_def
  simple_meta_def c00_def run_def

text \<open>Unfolding a run of a command.\<close>

lemmas run_simps = onMQTTMessage_def onMQTTMessage_resume_def onMQTTMessage_check_def
  onMQTTMessage_update_def onProgress_def publishEntityState_def merge_update_def
  removeProgressAndRemainingFromState_def getEntityPublishPayload_def Math_round_def
  failing_def succeeding_def rejecting_def boom_def

text \<open>
  Claim C1 says that a device has at most one check-or-update operation in flight. The
  automatic check of a device signal takes no entry in the In-Progress Set (lines 96-101):
  when the bulb's signal has started its availability query and an update command for the
  bulb arrives before the answer, the command is dispatched, and the bulb has two
  operations in flight.
\<close>

theorem one_operation_in_flight_counterexample:
  "signals (run env0 c00 [Signal next_image_request 1000 1000, Command update_bulb]) =
     [next_image_request] \<and>
   commands (run env0 c00 [Signal next_image_request 1000 1000, Command update_bulb]) =
     [(update_bulb, AwaitUpdate bulb)] \<and>
   trace (run env0 c00 [Signal next_image_request 1000 1000, Command update_bulb]) =
     [LogDebug (''Device '' @ quoted ''bulb'' @ '' requested OTA''),
      IsUpdateAvailable ''0x01'' True,
      LogInfo (''Updating '' @ quoted ''bulb'' @ '' to latest firmware''),
      ReadBuildID ''0x01'' True] \<and>
   \<not> operations_in_flight
       (run env0 c00 [Signal next_image_request 1000 1000, Command update_bulb]) ''0x01'' \<le> 1"
  by (simp add: ev_simps onZigbeeEvent_begin_def next_image_request_def
        operations_in_flight_def commands_in_flight_def checks_in_flight_def)

text \<open>
  Claim C1, amended. Let commands and device signals arrive and finish in any order,
  starting with no command waiting. Then at every moment a device has at most one command
  (check or update request) in flight, and every device with a command in flight is in the
  In-Progress Set. A command for a device that is in the set (a check as well as an
  update) ends at once with the error "Update or check for update already in progress":
  the extension's state is as before, nothing more is waiting, and only the response
  with the error (for a topic that is not of the legacy shape; for a legacy topic the
  error is only logged) and the error log line are added. A device signal for a device
  that is in the set is ignored. A command for another device runs the same whether or
  not that device is in the set. The automatic check of a device signal takes no entry:
  it can be in flight together with a command for the same device.
\<close>

theorem one_command_per_device:
  assumes "commands c0 = []" and "c = run e c0 sched"
  shows "commands_in_flight c dev \<le> 1 \<and>
         set (map in_flight (commands c)) \<subseteq> inProgress (ota c) \<and>
         (\<forall>data d.
            accepted e (topic data) \<and> resolveEntity e (request_ID (msg_body data)) = Some d \<and>
            dev_definition d = Some True \<and> ieeeAddr d \<in> inProgress (ota c) \<longrightarrow>
            step e c (Command data) =
              c\<lparr>trace := trace c @
                  (if legacyTopicRegex e (topic data) then []
                   else [BridgeResponse (last_segment (topic data)) (msg_body data)
                           \<lparr>rd_id = request_ID (msg_body data), updateAvailable = None,
                            rd_from = None, rd_to = None\<rparr>
                           (Some (''Update or check for update already in progress for '' @
                                  quoted (name d)))]) @
                  [LogError (''Update or check for update already in progress for '' @
                             quoted (name d))]\<rparr>) \<and>
         (\<forall>data now1 now2.
            ieeeAddr (msg_device data) \<in> inProgress (ota c) \<longrightarrow>
            step e c (Signal data now1 now2) = c) \<and>
         (\<forall>data d a ans.
            resolveEntity e (request_ID (msg_body data)) = Some d \<and> a \<noteq> ieeeAddr d \<longrightarrow>
            onMQTTMessage e ((ota c)\<lparr>inProgress := insert a (inProgress (ota c))\<rparr>) data ans =
              (case onMQTTMessage e (ota c) data ans of
                 (st2, ev, f) \<Rightarrow> (st2\<lparr>inProgress := insert a (inProgress st2)\<rparr>, ev, f)))"
proof -
  from assms(1) have "one_each c0"
    by (simp add: one_each_def)
  with assms(2) have "one_each c"
    by (simp add: one_each_run)
  then have inv: "distinct (map in_flight (commands c))"
    "set (map in_flight (commands c)) \<subseteq> inProgress (ota c)"
    by (simp_all add: one_each_def)
  from inv(1) have one: "commands_in_flight c dev \<le> 1"
    using distinct_count_le_one [of in_flight "commands c" dev]
    by (simp add: commands_in_flight_def)
  have busy: "step e c (Command data) =
              c\<lparr>trace := trace c @
                  (if legacyTopicRegex e (topic data) then []
                   else [BridgeResponse (last_segment (topic data)) (msg_body data)
                           \<lparr>rd_id = request_ID (msg_body data), updateAvailable = None,
                            rd_from = None, rd_to = None\<rparr>
                           (Some (''Update or check for update already in progress for '' @
                                  quoted (name d)))]) @
                  [LogError (''Update or check for update already in progress for '' @
                             quoted (name d))]\<rparr>"
    if "accepted e (topic data)" "resolveEntity e (request_ID (msg_body data)) = Some d"
       "dev_definition d = Some True" "ieeeAddr d \<in> inProgress (ota c)" for data d
    using onMQTTMessage_begin_busy [OF that] by simp
  have ignored: "step e c (Signal data now1 now2) = c"
    if "ieeeAddr (msg_device data) \<in> inProgress (ota c)" for data now1 now2
    using onZigbeeEvent_begin_busy [OF that] by simp
  from one inv(2) busy ignored onMQTTMessage_other_device show ?thesis
    by blast
qed

theorem one_command_per_device_witness:
  "commands (run env0 c00 [Command update_bulb]) = [(update_bulb, AwaitUpdate bulb)] \<and>
   commands_in_flight (run env0 c00 [Command update_bulb]) ''0x01'' \<le> 1 \<and>
   response_errors (trace (step env0 (run env0 c00 [Command update_bulb]) (Command check_bulb))) =
     [''Update or check for update already in progress for '' @ quoted ''bulb''] \<and>
   commands (step env0 (run env0 c00 [Command update_bulb]) (Command check_bulb)) =
     [(update_bulb, AwaitUpdate bulb)] \<and>
   step env0 (run env0 c00 [Command update_bulb]) (Signal next_image_request 1000 1000) =
     run env0 c00 [Command update_bulb] \<and>
   filter is_provider_call
     (fst (snd (onMQTTMessage env0 (st0\<lparr>inProgress := {''0x01''}\<rparr>) update_plug succeeding))) =
     [UpdateToLatest ''0x02'']"
proof -
  define c where "c = run env0 c00 [Command update_bulb]"
  have c: "c = c00\<lparr>ota := st0\<lparr>inProgress := {''0x01''}\<rparr>,
                    commands := [(update_bulb, AwaitUpdate bulb)],
                    trace := [LogInfo (''Updating '' @ quoted ''bulb'' @ '' to latest firmware''),
                              ReadBuildID ''0x01'' True]\<rparr>"
    unfolding c_def by (simp add: ev_simps)
  have h: "commands c00 = []"
    by (simp add: c00_def)
  have a: "accepted env0 (topic check_bulb)"
    by (simp add: ev_simps)
  have r: "resolveEntity env0 (request_ID (msg_body check_bulb)) = Some bulb"
    by (simp add: ev_simps)
  have o: "dev_definition bulb = Some True" "ieeeAddr bulb = ''0x01''" "name bulb = ''bulb''"
    "ieeeAddr (msg_device next_image_request) = ''0x01''"
    by (simp_all add: bulb_def next_image_request_def)
  note t = one_command_per_device [OF h c_def, of "''0x01''"]
  from t have one: "commands_in_flight c ''0x01'' \<le> 1"
    by blast
  from t have "accepted env0 (topic check_bulb) \<and>
         resolveEntity env0 (request_ID (msg_body check_bulb)) = Some bulb \<and>
         dev_definition bulb = Some True \<and> ieeeAddr bulb \<in> inProgress (ota c) \<longrightarrow>
         step env0 c (Command check_bulb) =
           c\<lparr>trace := trace c @
               (if legacyTopicRegex env0 (topic check_bulb) then []
                else [BridgeResponse (last_segment (topic check_bulb)) (msg_body check_bulb)
                        \<lparr>rd_id = request_ID (msg_body check_bulb), updateAvailable = None,
                         rd_from = None, rd_to = None\<rparr>
                        (Some (''Update or check for update already in progress for '' @
                               quoted (name bulb)))]) @
               [LogError (''Update or check for update already in progress for '' @
                          quoted (name bulb))]\<rparr>"
    by blast
  with a r o c have s: "step env0 c (Command check_bulb) =
           c\<lparr>trace := trace c @
               (if legacyTopicRegex env0 (topic check_bulb) then []
                else [BridgeResponse (last_segment (topic check_bulb)) (msg_body check_bulb)
                        \<lparr>rd_id = request_ID (msg_body check_bulb), updateAvailable = None,
                         rd_from = None, rd_to = None\<rparr>
                        (Some (''Update or check for update already in progress for '' @
                               quoted ''bulb''))]) @
               [LogError (''Update or check for update already in progress for '' @
                          quoted ''bulb'')]\<rparr>"
    by simp
  from t have "ieeeAddr (msg_device next_image_request) \<in> inProgress (ota c) \<longrightarrow>
               step env0 c (Signal next_image_request 1000 1000) = c"
    by blast
  with o c have g: "step env0 c (Signal next_image_request 1000 1000) = c"
    by simp
  have l: "\<not> legacyTopicRegex env0 (topic check_bulb)"
    by (simp add: ev_simps)
  have p: "resolveEntity env0 (request_ID (msg_body update_plug)) = Some plug"
    "''0x01'' \<noteq> ieeeAddr plug" "run env0 c00 [] = c00" "ota c00 = st0" "inProgress st0 = {}"
    by (simp_all add: ev_simps)
  from one_command_per_device [OF h refl, of env0 "[]"]
  have "resolveEntity env0 (request_ID (msg_body update_plug)) = Some plug \<and>
        ''0x01'' \<noteq> ieeeAddr plug \<longrightarrow>
        onMQTTMessage env0
          ((ota (run env0 c00 []))\<lparr>inProgress := insert ''0x01'' (inProgress (ota (run env0 c00 [])))\<rparr>)
          update_plug succeeding =
          (case onMQTTMessage env0 (ota (run env0 c00 [])) update_plug succeeding of
             (st2, ev, f) \<Rightarrow> (st2\<lparr>inProgress := insert ''0x01'' (inProgress st2)\<rparr>, ev, f))"
    by blast
  with p have "fst (snd (onMQTTMessage env0 (st0\<lparr>inProgress := {''0x01''}\<rparr>) update_plug succeeding)) =
               fst (snd (onMQTTMessage env0 st0 update_plug succeeding))"
    by (simp add: case_prod_beta)
  moreover have "filter is_provider_call (fst (snd (onMQTTMessage env0 st0 update_plug succeeding))) =
                   [UpdateToLatest ''0x02'']"
    by (simp add: ev_simps run_simps)
  ultimately have q: "filter is_provider_call
     (fst (snd (onMQTTMessage env0 (st0\<lparr>inProgress := {''0x01''}\<rparr>) update_plug succeeding))) =
     [UpdateToLatest ''0x02'']"
    by simp
  show ?thesis
    unfolding c_def [symmetric] s g using q one by (simp add: c l)
qed

subsection \<open>Release of the entry\<close>

text \<open>
  When a command is dispatched, the device was not in the In-Progress Set before and is
  in it while the handler waits. When the handler returns, whatever else has happened in
  between, the device is not in the set; run on its own such a handler leaves the set as
  it found it.
\<close>

lemma entry_released_when_handler_returns:
  assumes "onMQTTMessage_begin e st data = (st1, ev1, Some q)"
  shows "in_flight (data, q) \<notin> inProgress st"
    and "inProgress st1 = insert (in_flight (data, q)) (inProgress st)"
    and "snd (snd (onMQTTMessage_resume e st2 data q a)) = None \<Longrightarrow>
           in_flight (data, q) \<notin> inProgress (fst (onMQTTMessage_resume e st2 data q a))"
    and "snd (snd (onMQTTMessage e st data a)) = None \<Longrightarrow>
           inProgress (fst (onMQTTMessage e st data a)) = inProgress st"
proof -
  from onMQTTMessage_begin_waiting [OF assms]
  show n: "in_flight (data, q) \<notin> inProgress st"
    and i: "inProgress st1 = insert (in_flight (data, q)) (inProgress st)"
    by simp_all
  show "in_flight (data, q) \<notin> inProgress (fst (onMQTTMessage_resume e st2 data q a))"
    if "snd (snd (onMQTTMessage_resume e st2 data q a)) = None"
    using that by (simp add: onMQTTMessage_resume_inProgress)
  show "inProgress (fst (onMQTTMessage e st data a)) = inProgress st"
    if "snd (snd (onMQTTMessage e st data a)) = None"
  proof -
    from assms that have "snd (snd (onMQTTMessage_resume e st1 data q a)) = None"
      by (simp add: onMQTTMessage_def case_prod_beta)
    moreover from assms have "inProgress (fst (onMQTTMessage e st data a)) =
        inProgress (fst (onMQTTMessage_resume e st1 data q a))"
      by (simp add: onMQTTMessage_def case_prod_beta)
    ultimately show ?thesis
      using n i by (simp add: onMQTTMessage_resume_inProgress)
  qed
qed

text \<open>The handler returns for every answer but a rejection with \<open>null\<close> or \<open>undefined\<close>.\<close>

lemma onMQTTMessage_resume_returns:
  "snd (snd (onMQTTMessage_resume e st data q a)) = None \<longleftrightarrow>
     (case q of
        AwaitCheck d \<Rightarrow> (case availableResult a of Inl (Nullish n) \<Rightarrow> False | _ \<Rightarrow> True)
      | AwaitUpdate d \<Rightarrow>
          (case fileVersion (update_answers a) of Inl (Nullish n) \<Rightarrow> False | _ \<Rightarrow> True))"
  by (simp add: onMQTTMessage_resume_def onMQTTMessage_check_def onMQTTMessage_update_def
        Let_def case_prod_beta split: pending.splits sum.splits thrown.splits)

text \<open>
  Claim C2 says that the entry of the device is removed on every outcome of a dispatched
  operation. The release (line 309) comes after the \<open>try\<close>/\<open>catch\<close>, not in a
  \<open>finally\<close>, and the catch blocks read \<open>e.message\<close> (lines 228 and 294): when the
  provider rejects with \<open>undefined\<close>, the catch block throws, the handler ends without
  release and without response, and the bulb stays in the In-Progress Set, for a check as
  for an update. The next command for the bulb is refused as "already in progress".
\<close>

theorem entry_kept_after_nullish_rejection:
  "onMQTTMessage env0 st0 check_bulb rejecting =
     (st0\<lparr>inProgress := {''0x01''}\<rparr>,
      [LogInfo (''Checking if update available for '' @ quoted ''bulb''),
       IsUpdateAvailable ''0x01'' False],
      Some TypeError) \<and>
   inProgress (fst (onMQTTMessage env0 st0 update_bulb rejecting)) = {''0x01''} \<and>
   snd (snd (onMQTTMessage env0 st0 update_bulb rejecting)) = Some TypeError \<and>
   filter is_response (fst (snd (onMQTTMessage env0 st0 update_bulb rejecting))) = [] \<and>
   response_errors
     (fst (snd (onMQTTMessage env0 (fst (onMQTTMessage env0 st0 check_bulb rejecting))
                  check_bulb succeeding))) =
     [''Update or check for update already in progress for '' @ quoted ''bulb''] \<and>
   inProgress (fst (onMQTTMessage env0 st0 check_bulb failing)) = {} \<and>
   inProgress (fst (onMQTTMessage env0 st0 update_bulb succeeding)) = {}"
  by (simp add: ev_simps run_simps)

subsection \<open>A check that fails\<close>

text \<open>
  For the bulb, a check whose availability query throws an error with message \<open>boom\<close>:
  the response carries the text with the message of the cause; the stack of the cause is
  in no response, only in the debug log.
\<close>

theorem failed_check_stack_counterexample:
  "response_errors (fst (snd (onMQTTMessage env0 st0 check_bulb failing))) =
     [''Failed to check if update available for '' @ quoted ''bulb'' @ '' (boom)'']
   \<and> \<not> list_ex (occurs_in (e_stack boom))
         (response_errors (fst (snd (onMQTTMessage env0 st0 check_bulb failing))))
   \<and> debug_lines (fst (snd (onMQTTMessage env0 st0 check_bulb failing))) = [e_stack boom]"
  by (simp add: ev_simps onMQTTMessage_def onMQTTMessage_resume_def onMQTTMessage_check_def
        failing_def boom_def)

text \<open>
  Claim C9, amended. When the availability query of an explicit check fails with an
  error (a thrown value that has a message), no device state is published, the Last-Checked entry is not set, and the extension's state,
  with the device's update record, is exactly as it was before the request. The requester
  gets the response (for a topic that is not of the legacy shape) with the error text
  "Failed to check if update available for ..." that ends with the message of the cause;
  the same text goes to the error log. The stack of the cause is written to the debug log
  (when it is not empty) and is not sent to the requester.
\<close>

theorem failed_check_leaves_state:
  assumes "accepted e (topic data)"
    and "resolveEntity e (request_ID (msg_body data)) = Some d"
    and "dev_definition d = Some True"
    and "ieeeAddr d \<notin> inProgress st"
    and "last_segment (topic data) = ''check''"
    and "availableResult a = Inl (Thrown err)"
  shows "onMQTTMessage e st data a =
           (st,
            [LogInfo (''Checking if update available for '' @ quoted (name d))] @
            legacy_log e (Text (''Checking if update available for '' @ quoted (name d)))
              (simple_meta ''checking_if_available'' d) @
            [IsUpdateAvailable (ieeeAddr d) False] @
            legacy_log e
              (Text (''Failed to check if update available for '' @ quoted (name d) @
                     '' ('' @ e_message err @ '')''))
              (simple_meta ''check_failed'' d) @
            (if legacyTopicRegex e (topic data) then []
             else [BridgeResponse ''check'' (msg_body data)
                     \<lparr>rd_id = request_ID (msg_body data), updateAvailable = None,
                      rd_from = None, rd_to = None\<rparr>
                     (Some (''Failed to check if update available for '' @ quoted (name d) @
                            '' ('' @ e_message err @ '')''))]) @
            [LogError (''Failed to check if update available for '' @ quoted (name d) @
                       '' ('' @ e_message err @ '')'')] @
            (if e_stack err = [] then [] else [LogDebug (e_stack err)]),
            None)"
  using assms
  by (simp add: onMQTTMessage_def onMQTTMessage_begin_def onMQTTMessage_resume_def
        onMQTTMessage_check_def Let_def conclude_def)

theorem failed_check_leaves_state_witness:
  "onMQTTMessage env0 st0 check_bulb failing =
     (st0,
      [LogInfo (''Checking if update available for '' @ quoted ''bulb''),
       IsUpdateAvailable ''0x01'' False,
       BridgeResponse ''check'' (MObject (Some ''bulb''))
         \<lparr>rd_id = IdString ''bulb'', updateAvailable = None, rd_from = None, rd_to = None\<rparr>
         (Some (''Failed to check if update available for '' @ quoted ''bulb'' @ '' (boom)'')),
       LogError (''Failed to check if update available for '' @ quoted ''bulb'' @ '' (boom)''),
       LogDebug ''Error: boom at ota.js:1''],
      None)"
proof -
  have "accepted env0 (topic check_bulb)"
    and "resolveEntity env0 (request_ID (msg_body check_bulb)) = Some bulb"
    and "dev_definition bulb = Some True"
    and "ieeeAddr bulb \<notin> inProgress st0"
    and "last_segment (topic check_bulb) = ''check''"
    and "availableResult failing = Inl (Thrown boom)"
    by (simp_all add: ev_simps failing_def)
  from failed_check_leaves_state [OF this] show ?thesis
    by (simp add: ev_simps boom_def)
qed

subsection \<open>Traces and versions of an update\<close>

lemma response_errors_append: "response_errors (xs @ ys) = response_errors xs @ response_errors ys"
  by (induction xs rule: response_errors.induct) simp_all

lemma debug_lines_append: "debug_lines (xs @ ys) = debug_lines xs @ debug_lines ys"
  by (induction xs rule: debug_lines.induct) simp_all

lemma legacy_log_trace:
  "filter is_state_publication (legacy_log e m meta) = []"
  "filter is_lifecycle (legacy_log e m meta) = []"
  "filter is_response (legacy_log e m meta) = []"
  "response_errors (legacy_log e m meta) = []"
  "debug_lines (legacy_log e m meta) = []"
  by (simp_all add: legacy_log_def)

lemma conclude_trace:
  "filter is_state_publication (conclude e data rd er stack) = []"
  "filter is_lifecycle (conclude e data rd er stack) = []"
  "filter is_response (conclude e data rd er stack) =
     (if legacyTopicRegex e (topic data) then []
      else [BridgeResponse (last_segment (topic data)) (msg_body data) rd er])"
  "response_errors (conclude e data rd (Some x) stack) =
     (if legacyTopicRegex e (topic data) then [] else [x])"
  "debug_lines (conclude e data rd (Some x) (Some s)) = (if s = [] then [] else [s])"
  by (simp_all add: conclude_def split: option.splits)

lemma onProgress_trace:
  "filter is_lifecycle (snd (onProgress e d st pr)) = []"
  "filter is_response (snd (onProgress e d st pr)) = []"
  "response_errors (snd (onProgress e d st pr)) = []"
  "debug_lines (snd (onProgress e d st pr)) = []"
  by (simp_all add: onProgress_def Let_def publishEntityState_def legacy_log_def
        split: prod.splits)

lemma run_callbacks_trace:
  "filter is_lifecycle (snd (run_callbacks e d st prs)) = [] \<and>
   filter is_response (snd (run_callbacks e d st prs)) = [] \<and>
   response_errors (snd (run_callbacks e d st prs)) = [] \<and>
   debug_lines (snd (run_callbacks e d st prs)) = []"
proof (induction prs arbitrary: st)
  case Nil
  then show ?case by simp
next
  case (Cons pr prs)
  obtain st1 ev1 where s1: "onProgress e d st pr = (st1, ev1)"
    by (cases "onProgress e d st pr")
  obtain st2 ev2 where s2: "run_callbacks e d st1 prs = (st2, ev2)"
    by (cases "run_callbacks e d st1 prs")
  from onProgress_trace [of e d st pr] s1
  have "filter is_lifecycle ev1 = []" "filter is_response ev1 = []"
    "response_errors ev1 = []" "debug_lines ev1 = []"
    by simp_all
  with Cons.IH [of st1] s1 s2 show ?case
    by (simp add: response_errors_append debug_lines_append)
qed

text \<open>The versions a device has in the state store stay through the progress callbacks.\<close>

lemma onProgress_versions:
  "Option.bind (store (fst (onProgress e d st pr)) k) installed_version =
     Option.bind (store st k) installed_version \<and>
   Option.bind (store (fst (onProgress e d st pr)) k) latest_version =
     Option.bind (store st k) latest_version"
  by (cases "store st (ieeeAddr d)"; cases "snd pr")
     (simp_all add: onProgress_def Let_def publishEntityState_def getEntityPublishPayload_def
        merge_update_def)

lemma run_callbacks_versions:
  "Option.bind (store (fst (run_callbacks e d st prs)) k) installed_version =
     Option.bind (store st k) installed_version \<and>
   Option.bind (store (fst (run_callbacks e d st prs)) k) latest_version =
     Option.bind (store st k) latest_version"
proof (induction prs arbitrary: st)
  case Nil
  then show ?case by simp
next
  case (Cons pr prs)
  obtain st1 ev1 where s1: "onProgress e d st pr = (st1, ev1)"
    by (cases "onProgress e d st pr")
  obtain st2 ev2 where s2: "run_callbacks e d st1 prs = (st2, ev2)"
    by (cases "run_callbacks e d st1 prs")
  from onProgress_versions [of e d st pr k] s1 Cons.IH [of st1] s2 show ?case
    by simp
qed

text \<open>After the progress fields are removed, publishing a payload without them stores the payload.\<close>

lemma publish_after_remove:
  assumes "progress (update p) = None" and "remaining (update p) = None"
  shows "store (fst (publishEntityState (removeProgressAndRemainingFromState st d) d p)) (ieeeAddr d) =
           Some (update p)"
  using assms
  by (cases "store st (ieeeAddr d)")
     (simp_all add: publishEntityState_def removeProgressAndRemainingFromState_def merge_update_def)

lemma removeProgress_versions:
  "Option.bind (store (removeProgressAndRemainingFromState st d) k) installed_version =
     Option.bind (store st k) installed_version"
  "Option.bind (store (removeProgressAndRemainingFromState st d) k) latest_version =
     Option.bind (store st k) latest_version"
  by (simp_all add: removeProgressAndRemainingFromState_def split: option.splits)

lemma onMQTTMessage_dispatch_update:
  assumes "accepted e (topic data)"
    and "resolveEntity e (request_ID (msg_body data)) = Some d"
    and "dev_definition d = Some True"
    and "ieeeAddr d \<notin> inProgress st"
    and "last_segment (topic data) \<noteq> ''check''"
  shows "onMQTTMessage e st data a =
           (fst (onMQTTMessage_update e (st\<lparr>inProgress := insert (ieeeAddr d) (inProgress st)\<rparr>)
                   data d (update_answers a)),
            [LogInfo (''Updating '' @ quoted (name d) @ '' to latest firmware'')] @
            legacy_log e (Text (''Updating '' @ quoted (name d) @ '' to latest firmware''))
              (simple_meta ''update_in_progress'' d) @
            [ReadBuildID (ieeeAddr d) True] @
            fst (snd (onMQTTMessage_update e (st\<lparr>inProgress := insert (ieeeAddr d) (inProgress st)\<rparr>)
                   data d (update_answers a))),
            snd (snd (onMQTTMessage_update e (st\<lparr>inProgress := insert (ieeeAddr d) (inProgress st)\<rparr>)
                   data d (update_answers a))))"
  using assms
  by (simp add: onMQTTMessage_def onMQTTMessage_begin_def onMQTTMessage_resume_def Let_def
        split: prod.splits)

lemma onMQTTMessage_update_failure:
  assumes "fileVersion r = Inl (Thrown err)"
  shows "onMQTTMessage_update e st data d r =
           ((fst (publishEntityState
                    (removeProgressAndRemainingFromState (fst (run_callbacks e d st (callbacks r))) d) d
                    (getEntityPublishPayload e
                       (removeProgressAndRemainingFromState (fst (run_callbacks e d st (callbacks r))) d)
                       d (StateString Available) None None)))
              \<lparr>inProgress := inProgress st - {ieeeAddr d}\<rparr>,
            UpdateToLatest (ieeeAddr d) # snd (run_callbacks e d st (callbacks r)) @
            [LogDebug (''Update of '' @ quoted (name d) @ '' failed ('' @ e_string err @ '')''),
             PublishEntityState (ieeeAddr d)
               (getEntityPublishPayload e
                  (removeProgressAndRemainingFromState (fst (run_callbacks e d st (callbacks r))) d)
                  d (StateString Available) None None)] @
            legacy_log e
              (Text (''Update of '' @ quoted (name d) @ '' failed ('' @ e_message err @ '')''))
              (simple_meta ''update_failed'' d) @
            conclude e data
              \<lparr>rd_id = request_ID (msg_body data), updateAvailable = None,
               rd_from = None, rd_to = None\<rparr>
              (Some (''Update of '' @ quoted (name d) @ '' failed ('' @ e_message err @ '')''))
              (Some (e_stack err)),
            None)"
proof -
  obtain stc evc where rc: "run_callbacks e d st (callbacks r) = (stc, evc)"
    by (cases "run_callbacks e d st (callbacks r)")
  with run_callbacks_frame [of e d st "callbacks r"] have "inProgress stc = inProgress st"
    by simp
  with assms rc show ?thesis
    by (simp add: onMQTTMessage_update_def Let_def publishEntityState_def removeProgress_frame)
qed

subsection \<open>An update that fails\<close>

text \<open>
  Claim C5, amended. When the provider call of an update fails with an error (a thrown
  value that has a message), the device's record ends
  without \<open>progress\<close> and \<open>remaining\<close>, in state \<open>available\<close>, with the
  \<open>installed_version\<close> and \<open>latest_version\<close> it had before the request; the last
  state published is that record. No reconfigure and no devices-changed event is emitted.
  The requester gets the response (for a topic that is not of the legacy shape) with the
  error text "Update of ... failed" that ends with the message of the cause. The stack of
  the cause is written to the debug log (when it is not empty) and is not sent to the
  requester.
\<close>

theorem failed_update_rolls_back:
  assumes "accepted e (topic data)"
    and "resolveEntity e (request_ID (msg_body data)) = Some d"
    and "dev_definition d = Some True"
    and "ieeeAddr d \<notin> inProgress st"
    and "last_segment (topic data) \<noteq> ''check''"
    and "fileVersion (update_answers a) = Inl (Thrown err)"
  shows "store (fst (onMQTTMessage e st data a)) (ieeeAddr d) =
           Some \<lparr>state = Available,
                 installed_version = Option.bind (store st (ieeeAddr d)) installed_version,
                 latest_version = Option.bind (store st (ieeeAddr d)) latest_version,
                 progress = None, remaining = None\<rparr> \<and>
         inProgress (fst (onMQTTMessage e st data a)) = inProgress st \<and>
         lastChecked (fst (onMQTTMessage e st data a)) = lastChecked st \<and>
         last (filter is_state_publication (fst (snd (onMQTTMessage e st data a)))) =
           PublishEntityState (ieeeAddr d)
             \<lparr>update_available = (if legacyApi e then Some True else None),
              update = \<lparr>state = Available,
                        installed_version = Option.bind (store st (ieeeAddr d)) installed_version,
                        latest_version = Option.bind (store st (ieeeAddr d)) latest_version,
                        progress = None, remaining = None\<rparr>\<rparr> \<and>
         filter is_lifecycle (fst (snd (onMQTTMessage e st data a))) = [] \<and>
         filter is_response (fst (snd (onMQTTMessage e st data a))) =
           (if legacyTopicRegex e (topic data) then []
            else [BridgeResponse (last_segment (topic data)) (msg_body data)
                    \<lparr>rd_id = request_ID (msg_body data), updateAvailable = None,
                     rd_from = None, rd_to = None\<rparr>
                    (Some (''Update of '' @ quoted (name d) @ '' failed ('' @
                           e_message err @ '')''))]) \<and>
         debug_lines (fst (snd (onMQTTMessage e st data a))) =
           (''Update of '' @ quoted (name d) @ '' failed ('' @ e_string err @ '')'') #
           (if e_stack err = [] then [] else [e_stack err])"
proof -
  define st1 where "st1 = st\<lparr>inProgress := insert (ieeeAddr d) (inProgress st)\<rparr>"
  define stc where "stc = fst (run_callbacks e d st1 (callbacks (update_answers a)))"
  define evc where "evc = snd (run_callbacks e d st1 (callbacks (update_answers a)))"
  define st2 where "st2 = removeProgressAndRemainingFromState stc d"
  define p where "p = getEntityPublishPayload e st2 d (StateString Available) None None"
  have v: "Option.bind (store st2 (ieeeAddr d)) installed_version =
             Option.bind (store st (ieeeAddr d)) installed_version"
    "Option.bind (store st2 (ieeeAddr d)) latest_version =
             Option.bind (store st (ieeeAddr d)) latest_version"
    using run_callbacks_versions [of e d st1 "callbacks (update_answers a)" "ieeeAddr d"]
    by (simp_all add: st2_def stc_def removeProgress_versions st1_def)
  have p: "p = \<lparr>update_available = (if legacyApi e then Some True else None),
                update = \<lparr>state = Available,
                          installed_version = Option.bind (store st (ieeeAddr d)) installed_version,
                          latest_version = Option.bind (store st (ieeeAddr d)) latest_version,
                          progress = None, remaining = None\<rparr>\<rparr>"
    unfolding p_def by (simp add: getEntityPublishPayload_def v)
  have fr: "lastChecked stc = lastChecked st" "inProgress stc = inProgress st1"
    using run_callbacks_frame [of e d st1 "callbacks (update_answers a)"]
    by (simp_all add: stc_def st1_def)
  have tr: "filter is_lifecycle evc = []" "filter is_response evc = []" "debug_lines evc = []"
    using run_callbacks_trace [of e d st1 "callbacks (update_answers a)"]
    by (simp_all add: evc_def)
  have run: "onMQTTMessage e st data a =
          ((fst (publishEntityState st2 d p))\<lparr>inProgress := inProgress st1 - {ieeeAddr d}\<rparr>,
           [LogInfo (''Updating '' @ quoted (name d) @ '' to latest firmware'')] @
           legacy_log e (Text (''Updating '' @ quoted (name d) @ '' to latest firmware''))
             (simple_meta ''update_in_progress'' d) @
           [ReadBuildID (ieeeAddr d) True] @
           UpdateToLatest (ieeeAddr d) # evc @
           [LogDebug (''Update of '' @ quoted (name d) @ '' failed ('' @ e_string err @ '')''),
            PublishEntityState (ieeeAddr d) p] @
           legacy_log e
             (Text (''Update of '' @ quoted (name d) @ '' failed ('' @ e_message err @ '')''))
             (simple_meta ''update_failed'' d) @
           conclude e data
             \<lparr>rd_id = request_ID (msg_body data), updateAvailable = None,
              rd_from = None, rd_to = None\<rparr>
             (Some (''Update of '' @ quoted (name d) @ '' failed ('' @ e_message err @ '')''))
             (Some (e_stack err)),
           None)"
    unfolding onMQTTMessage_dispatch_update [OF assms(1-5)]
      onMQTTMessage_update_failure [OF assms(6)] st1_def [symmetric]
      stc_def [symmetric] evc_def [symmetric] st2_def [symmetric] p_def [symmetric]
    by simp
  have s: "store (fst (publishEntityState st2 d p)) (ieeeAddr d) = Some (update p)"
    unfolding st2_def by (rule publish_after_remove) (simp_all add: p)
  have c1: "store (fst (onMQTTMessage e st data a)) (ieeeAddr d) = Some (update p)"
    unfolding run using s by simp
  have c2: "inProgress (fst (onMQTTMessage e st data a)) = inProgress st"
    unfolding run using assms(4) by (simp add: st1_def)
  have c3: "lastChecked (fst (onMQTTMessage e st data a)) = lastChecked st"
    unfolding run by (simp add: publishEntityState_frame st2_def removeProgress_frame fr)
  have c4: "last (filter is_state_publication (fst (snd (onMQTTMessage e st data a)))) =
              PublishEntityState (ieeeAddr d) p"
    unfolding run by (simp add: legacy_log_trace conclude_trace)
  have c5: "filter is_lifecycle (fst (snd (onMQTTMessage e st data a))) = []"
    unfolding run by (simp add: legacy_log_trace conclude_trace tr)
  have c6: "filter is_response (fst (snd (onMQTTMessage e st data a))) =
           (if legacyTopicRegex e (topic data) then []
            else [BridgeResponse (last_segment (topic data)) (msg_body data)
                    \<lparr>rd_id = request_ID (msg_body data), updateAvailable = None,
                     rd_from = None, rd_to = None\<rparr>
                    (Some (''Update of '' @ quoted (name d) @ '' failed ('' @
                           e_message err @ '')''))])"
    unfolding run by (simp add: legacy_log_trace conclude_trace tr)
  have c7: "debug_lines (fst (snd (onMQTTMessage e st data a))) =
           (''Update of '' @ quoted (name d) @ '' failed ('' @ e_string err @ '')'') #
           (if e_stack err = [] then [] else [e_stack err])"
    unfolding run by (simp add: debug_lines_append legacy_log_trace conclude_trace tr)
  from c1 c2 c3 c4 c5 c6 c7 show ?thesis
    unfolding p by simp
qed

text \<open>
  For the bulb, an update whose provider call throws an error with message \<open>boom\<close>: the
  response carries the text with the message of the cause; the stack of the cause is in
  no response, only in the debug log.
\<close>

theorem failed_update_stack_counterexample:
  "response_errors (fst (snd (onMQTTMessage env0 st0 update_bulb failing))) =
     [''Update of '' @ quoted ''bulb'' @ '' failed (boom)'']
   \<and> \<not> list_ex (occurs_in (e_stack boom))
         (response_errors (fst (snd (onMQTTMessage env0 st0 update_bulb failing))))
   \<and> debug_lines (fst (snd (onMQTTMessage env0 st0 update_bulb failing))) =
       [''Update of '' @ quoted ''bulb'' @ '' failed (Error: boom)'', e_stack boom]"
  by (simp add: ev_simps run_simps)

theorem failed_update_rolls_back_witness:
  "store (fst (onMQTTMessage env0 st0 update_bulb failing)) ''0x01'' =
     Some \<lparr>state = Available, installed_version = Some 5, latest_version = Some 7,
           progress = None, remaining = None\<rparr> \<and>
   last (filter is_state_publication (fst (snd (onMQTTMessage env0 st0 update_bulb failing)))) =
     PublishEntityState ''0x01''
       \<lparr>update_available = None,
        update = \<lparr>state = Available, installed_version = Some 5, latest_version = Some 7,
                  progress = None, remaining = None\<rparr>\<rparr> \<and>
   filter is_lifecycle (fst (snd (onMQTTMessage env0 st0 update_bulb failing))) = [] \<and>
   filter is_response (fst (snd (onMQTTMessage env0 st0 update_bulb failing))) =
     [BridgeResponse ''update'' (MObject (Some ''bulb''))
        \<lparr>rd_id = IdString ''bulb'', updateAvailable = None, rd_from = None, rd_to = None\<rparr>
        (Some (''Update of '' @ quoted ''bulb'' @ '' failed (boom)''))]"
proof -
  have "accepted env0 (topic update_bulb)"
    and "resolveEntity env0 (request_ID (msg_body update_bulb)) = Some bulb"
    and "dev_definition bulb = Some True"
    and "ieeeAddr bulb \<notin> inProgress st0"
    and "last_segment (topic update_bulb) \<noteq> ''check''"
    and "fileVersion (update_answers failing) = Inl (Thrown boom)"
    by (simp_all add: ev_simps failing_def)
  from failed_update_rolls_back [OF this] show ?thesis
    by (simp add: ev_simps boom_def)
qed

subsection \<open>An update that succeeds\<close>




subsection \<open>The automatic check\<close>

lemma onZigbeeEvent_resume_frame:
  "lastChecked (fst (onZigbeeEvent_resume e st data answer)) = lastChecked st"
  by (simp add: onZigbeeEvent_resume_def Let_def publishEntityState_def
        split: sum.splits thrown.splits)

lemma onZigbeeEvent_resume_queries:
  "filter is_availability_query (fst (snd (onZigbeeEvent_resume e st data answer))) = []"
  by (simp add: onZigbeeEvent_resume_def Let_def publishEntityState_def
        respond_NO_IMAGE_AVAILABLE_def split: sum.splits thrown.splits)

lemma onZigbeeEvent_begin_eligible:
  assumes "msg_type data = ''commandQueryNextImageRequest''"
    and "dev_definition (msg_device data) = Some True"
    and "ieeeAddr (msg_device data) \<notin> inProgress st"
    and "\<not> disable_automatic_update_check e"
  shows "onZigbeeEvent_begin e st data now1 now2 =
           (if (case lastChecked st (ieeeAddr (msg_device data)) of
                  None \<Rightarrow> True
                | Some t \<Rightarrow> now1 - t > update_check_interval e * 1000 * 60)
            then (st\<lparr>lastChecked := (lastChecked st)(ieeeAddr (msg_device data) \<mapsto> now2)\<rparr>,
                  [LogDebug (''Device '' @ quoted (name (msg_device data)) @ '' requested OTA''),
                   IsUpdateAvailable (ieeeAddr (msg_device data)) True], True)
            else (st,
                  [LogDebug (''Device '' @ quoted (name (msg_device data)) @ '' requested OTA'')],
                  False))"
  using assms by (simp add: onZigbeeEvent_begin_def Let_def split: option.splits)

text \<open>
  Claim C7. Take a "requesting next image" signal of a device with OTA support that is not
  in the In-Progress Set, with automatic checks enabled. The availability query is issued
  exactly when the device has no Last-Checked entry or the time since its entry is more
  than the interval; then the entry is set to the current time before the handler waits
  for the answer. Otherwise the handler returns with nothing queried and nothing
  published, and the state as it was. So when a signal has caused a query and a second
  signal of the same device arrives within the interval of the entry, be it while the
  first handler still waits or after it has finished, the second causes no query and no
  publication: the two signals together cause exactly one availability query.
\<close>

theorem automatic_check_rate_limit:
  assumes "msg_type data = ''commandQueryNextImageRequest''"
    and "dev_definition (msg_device data) = Some True"
    and "ieeeAddr (msg_device data) \<notin> inProgress st"
    and "\<not> disable_automatic_update_check e"
  shows "onZigbeeEvent_begin e st data first_read first_stamp =
           (if (case lastChecked st (ieeeAddr (msg_device data)) of
                  None \<Rightarrow> True
                | Some t \<Rightarrow> first_read - t > update_check_interval e * 1000 * 60)
            then (st\<lparr>lastChecked := (lastChecked st)(ieeeAddr (msg_device data) \<mapsto> first_stamp)\<rparr>,
                  [LogDebug (''Device '' @ quoted (name (msg_device data)) @ '' requested OTA''),
                   IsUpdateAvailable (ieeeAddr (msg_device data)) True], True)
            else (st,
                  [LogDebug (''Device '' @ quoted (name (msg_device data)) @ '' requested OTA'')],
                  False)) \<and>
         ((case lastChecked st (ieeeAddr (msg_device data)) of
             None \<Rightarrow> True
           | Some t \<Rightarrow> first_read - t > update_check_interval e * 1000 * 60) \<and>
          msg_type again = ''commandQueryNextImageRequest'' \<and>
          msg_device again = msg_device data \<and>
          second_read - first_stamp \<le> update_check_interval e * 1000 * 60 \<longrightarrow>
            onZigbeeEvent_begin e (fst (onZigbeeEvent_begin e st data first_read first_stamp)) again second_read second_stamp =
              (fst (onZigbeeEvent_begin e st data first_read first_stamp),
               [LogDebug (''Device '' @ quoted (name (msg_device data)) @ '' requested OTA'')],
               False) \<and>
            length (filter is_availability_query
                      (fst (snd (onZigbeeEvent e st data first_read first_stamp answer)) @
                       fst (snd (onZigbeeEvent e (fst (onZigbeeEvent e st data first_read first_stamp answer))
                              again second_read second_stamp answer_again)))) = 1 \<and>
            filter is_state_publication
              (fst (snd (onZigbeeEvent e (fst (onZigbeeEvent e st data first_read first_stamp answer))
                      again second_read second_stamp answer_again))) = [])"
proof -
  let ?ieee = "ieeeAddr (msg_device data)"
  let ?log = "LogDebug (''Device '' @ quoted (name (msg_device data)) @ '' requested OTA'')"
  note b = onZigbeeEvent_begin_eligible [OF assms]
  have second: "onZigbeeEvent_begin e st' again second_read second_stamp = (st', [?log], False)"
    if "lastChecked st' ?ieee = Some first_stamp" "inProgress st' = inProgress st"
      "msg_type again = ''commandQueryNextImageRequest''" "msg_device again = msg_device data"
      "second_read - first_stamp \<le> update_check_interval e * 1000 * 60" for st'
    using that assms by (simp add: onZigbeeEvent_begin_def Let_def)
  have two: "onZigbeeEvent_begin e (fst (onZigbeeEvent_begin e st data first_read first_stamp)) again second_read second_stamp =
              (fst (onZigbeeEvent_begin e st data first_read first_stamp), [?log], False) \<and>
            length (filter is_availability_query
                      (fst (snd (onZigbeeEvent e st data first_read first_stamp answer)) @
                       fst (snd (onZigbeeEvent e (fst (onZigbeeEvent e st data first_read first_stamp answer))
                              again second_read second_stamp answer_again)))) = 1 \<and>
            filter is_state_publication
              (fst (snd (onZigbeeEvent e (fst (onZigbeeEvent e st data first_read first_stamp answer))
                      again second_read second_stamp answer_again))) = []"
    if el: "case lastChecked st ?ieee of None \<Rightarrow> True
            | Some t \<Rightarrow> first_read - t > update_check_interval e * 1000 * 60"
      and d2: "msg_type again = ''commandQueryNextImageRequest''" "msg_device again = msg_device data"
        "second_read - first_stamp \<le> update_check_interval e * 1000 * 60"
  proof -
    define st1 where "st1 = st\<lparr>lastChecked := (lastChecked st)(?ieee \<mapsto> first_stamp)\<rparr>"
    from b el have b1: "onZigbeeEvent_begin e st data first_read first_stamp =
        (st1, [?log, IsUpdateAvailable ?ieee True], True)"
      by (simp add: st1_def)
    define st2 where "st2 = fst (onZigbeeEvent_resume e st1 data answer)"
    define ev2 where "ev2 = fst (snd (onZigbeeEvent_resume e st1 data answer))"
    from b1 have r1: "onZigbeeEvent e st data first_read first_stamp answer =
        (st2, [?log, IsUpdateAvailable ?ieee True] @ ev2,
         snd (snd (onZigbeeEvent_resume e st1 data answer)))"
      by (simp add: onZigbeeEvent_def st2_def ev2_def case_prod_beta)
    have q2: "filter is_availability_query ev2 = []"
      by (simp add: ev2_def onZigbeeEvent_resume_queries)
    have l1: "lastChecked st1 ?ieee = Some first_stamp" "inProgress st1 = inProgress st"
      by (simp_all add: st1_def)
    have l2: "lastChecked st2 ?ieee = Some first_stamp" "inProgress st2 = inProgress st"
      by (simp_all add: st2_def onZigbeeEvent_resume_frame onZigbeeEvent_resume_inProgress l1)
    from second [OF l1 d2] b1
    have A: "onZigbeeEvent_begin e (fst (onZigbeeEvent_begin e st data first_read first_stamp))
               again second_read second_stamp =
              (fst (onZigbeeEvent_begin e st data first_read first_stamp), [?log], False)"
      by simp
    from second [OF l2 d2]
    have r2: "onZigbeeEvent e st2 again second_read second_stamp answer_again =
        (st2, [?log], None)"
      by (simp add: onZigbeeEvent_def)
    from A r1 r2 q2 show ?thesis
      by simp
  qed
  from b two show ?thesis
    by blast
qed

theorem automatic_check_rate_limit_witness:
  "length (filter is_availability_query
             (fst (snd (onZigbeeEvent env0 st0 next_image_request 1000 1000 (availableResult succeeding))) @
              fst (snd (onZigbeeEvent env0
                     (fst (onZigbeeEvent env0 st0 next_image_request 1000 1000
                             (availableResult succeeding)))
                     next_image_request 301000 301000 (availableResult succeeding))))) = 1 \<and>
   lastChecked (fst (onZigbeeEvent_begin env0 st0 next_image_request 1000 1000)) ''0x01'' = Some 1000"
proof -
  have h: "msg_type next_image_request = ''commandQueryNextImageRequest''"
    "dev_definition (msg_device next_image_request) = Some True"
    "ieeeAddr (msg_device next_image_request) \<notin> inProgress st0"
    "\<not> disable_automatic_update_check env0"
    by (simp_all add: next_image_request_def ev_simps)
  have i: "lastChecked st0 (ieeeAddr (msg_device next_image_request)) = None"
    "update_check_interval env0 = 1440" "ieeeAddr (msg_device next_image_request) = ''0x01''"
    by (simp_all add: next_image_request_def ev_simps)
  from automatic_check_rate_limit [OF h, where first_read = 1000 and first_stamp = 1000
      and again = next_image_request and second_read = 301000 and second_stamp = 301000
      and answer = "availableResult succeeding" and answer_again = "availableResult succeeding"] i h
  show ?thesis
    by simp
qed

text \<open>
  Claim C3 says that the handler ends with the reply \<open>queryNextImageResponse\<close> with status
  \<open>NO_IMAGE_AVAILABLE\<close> for every signal it handles, also when the rate limit skips the
  query. The code returns at line 94 in that case, before the reply of lines 125-128: for
  the bulb, checked at time 1000 and asking again at 301000 with the interval of 1440
  minutes, the handler writes its first debug line and sends no reply. The first signal
  of the bulb, and the same signal with automatic checks disabled, do get the reply.
\<close>

theorem rate_limited_signal_gets_no_reply:
  "onZigbeeEvent env0 (st0\<lparr>lastChecked := [''0x01'' \<mapsto> 1000]\<rparr>) next_image_request
     301000 301000 (availableResult succeeding) =
     (st0\<lparr>lastChecked := [''0x01'' \<mapsto> 1000]\<rparr>,
      [LogDebug (''Device '' @ quoted ''bulb'' @ '' requested OTA'')],
      None) \<and>
   filter is_NO_IMAGE_AVAILABLE
     (fst (snd (onZigbeeEvent env0 (st0\<lparr>lastChecked := [''0x01'' \<mapsto> 1000]\<rparr>) next_image_request
             301000 301000 (availableResult succeeding)))) = [] \<and>
   filter is_NO_IMAGE_AVAILABLE
     (fst (snd (onZigbeeEvent env0 st0 next_image_request 301000 301000 (availableResult succeeding)))) =
     [CommandResponse 1 0x98 9] \<and>
   filter is_NO_IMAGE_AVAILABLE
     (fst (snd (onZigbeeEvent (env0\<lparr>disable_automatic_update_check := True\<rparr>)
             (st0\<lparr>lastChecked := [''0x01'' \<mapsto> 1000]\<rparr>) next_image_request
             301000 301000 (availableResult succeeding)))) =
     [CommandResponse 1 0x98 9]"
  by (simp add: onZigbeeEvent_def onZigbeeEvent_begin_def onZigbeeEvent_resume_def
        respond_NO_IMAGE_AVAILABLE_def next_image_request_def ev_simps run_simps)

subsection \<open>Which action a command starts\<close>











end
